theory Spec2Isabelle
  imports Main
begin

section \<open>The solver interface used by \<open>Z3Builder.cpp\<close>\<close>

text \<open>
  The builder in \<^verbatim>\<open>lib/Solver/Z3Builder.cpp\<close> turns KLEE expressions into Z3 terms by
  calling the constructors of Z3's C API. A term is modelled as the tree of API calls that
  built it; the reference counting of \<^verbatim>\<open>Z3ASTHandle\<close> and \<^verbatim>\<open>Z3SortHandle\<close> has no
  influence on the term that is built and is left out.
\<close>

datatype z3sort =
    BoolSort
  | BvSort nat
  | ArraySort z3sort z3sort
  | FpaSort nat nat
  | RoundingModeSort

definition Z3_mk_bv_sort :: "nat \<Rightarrow> z3sort" where
  "Z3_mk_bv_sort width = BvSort width"

definition Z3_mk_array_sort :: "z3sort \<Rightarrow> z3sort \<Rightarrow> z3sort" where
  "Z3_mk_array_sort domainSort rangeSort = ArraySort domainSort rangeSort"

definition Z3_mk_fpa_sort :: "nat \<Rightarrow> nat \<Rightarrow> z3sort" where
  "Z3_mk_fpa_sort ebits sbits = FpaSort ebits sbits"

definition Z3_mk_fpa_sort_16 :: z3sort where "Z3_mk_fpa_sort_16 = FpaSort 5 11"
definition Z3_mk_fpa_sort_32 :: z3sort where "Z3_mk_fpa_sort_32 = FpaSort 8 24"
definition Z3_mk_fpa_sort_64 :: z3sort where "Z3_mk_fpa_sort_64 = FpaSort 11 53"
definition Z3_mk_fpa_sort_128 :: z3sort where "Z3_mk_fpa_sort_128 = FpaSort 15 113"

text \<open>
  The API functions with one, two and three term arguments. \<^verbatim>\<open>Z3_mk_and\<close> and
  \<^verbatim>\<open>Z3_mk_or\<close> take an argument array; the builder only calls them with two arguments,
  and \<^verbatim>\<open>Z3_mk_or\<close> also with three (\<open>Z3_mk_or3\<close>).
\<close>

datatype z3_unop =
    Z3_mk_not | Z3_mk_bvnot | Z3_mk_bvredor
  | Z3_mk_fpa_is_nan | Z3_mk_fpa_is_infinite | Z3_mk_fpa_is_zero
  | Z3_mk_fpa_is_subnormal | Z3_mk_fpa_is_negative
  | Z3_mk_fpa_abs | Z3_mk_fpa_to_ieee_bv

datatype z3_binop =
    Z3_mk_eq | Z3_mk_iff | Z3_mk_and | Z3_mk_or | Z3_mk_concat
  | Z3_mk_bvand | Z3_mk_bvor | Z3_mk_bvxor
  | Z3_mk_bvadd | Z3_mk_bvsub | Z3_mk_bvmul
  | Z3_mk_bvudiv | Z3_mk_bvsdiv | Z3_mk_bvurem | Z3_mk_bvsrem
  | Z3_mk_bvult | Z3_mk_bvule | Z3_mk_bvslt | Z3_mk_bvsle
  | Z3_mk_select
  | Z3_mk_fpa_sqrt | Z3_mk_fpa_round_to_integral
  | Z3_mk_fpa_rem | Z3_mk_fpa_min | Z3_mk_fpa_max
  | Z3_mk_fpa_eq | Z3_mk_fpa_lt | Z3_mk_fpa_leq | Z3_mk_fpa_gt | Z3_mk_fpa_geq

datatype z3_ternop =
    Z3_mk_ite | Z3_mk_store | Z3_mk_or3 | Z3_mk_fpa_fp
  | Z3_mk_fpa_add | Z3_mk_fpa_sub | Z3_mk_fpa_mul | Z3_mk_fpa_div

datatype z3ast =
    Z3_mk_true
  | Z3_mk_false
  | Z3_mk_unsigned_int nat z3sort
  | Z3_mk_unsigned_int64 nat z3sort
  | Z3_mk_int64 int z3sort
  | Z3_mk_const string z3sort
  | Z3_mk_extract nat nat z3ast
  | Z3_mk_sign_ext nat z3ast
  | Z3_mk_fpa_round_nearest_ties_to_even
  | Z3_mk_fpa_round_toward_positive
  | Z3_mk_fpa_round_toward_negative
  | Z3_mk_fpa_round_toward_zero
  | Z3_mk_fpa_round_nearest_ties_to_away
  | Z3_mk_fpa_nan z3sort
  | Z3_mk_fpa_zero z3sort bool
  | Z3_mk_fpa_numeral_float nat z3sort
  | Z3_mk_fpa_numeral_double nat z3sort
  | Z3_mk_fpa_to_fp_float z3ast z3ast z3sort
  | Z3_mk_fpa_to_fp_unsigned z3ast z3ast z3sort
  | Z3_mk_fpa_to_fp_signed z3ast z3ast z3sort
  | Z3_mk_fpa_to_fp_bv z3ast z3sort
  | Z3_mk_fpa_to_ubv z3ast z3ast nat
  | Z3_mk_fpa_to_sbv z3ast z3ast nat
  | Z3_app1 z3_unop z3ast
  | Z3_app2 z3_binop z3ast z3ast
  | Z3_app3 z3_ternop z3ast z3ast z3ast

text \<open>
  Every error the builder can run into ends the process: a failed \<^verbatim>\<open>assert\<close> (the
  message is kept), or an error reported by Z3, which \<^verbatim>\<open>custom_z3_error_handler\<close>
  answers with \<^verbatim>\<open>abort()\<close> unless the message is \<^verbatim>\<open>canceled\<close>.
\<close>

datatype error = AssertionFailed string | SolverFatal

definition bindE :: "error + 'a \<Rightarrow> ('a \<Rightarrow> error + 'b) \<Rightarrow> error + 'b" where
  "bindE m f = (case m of Inl e \<Rightarrow> Inl e | Inr x \<Rightarrow> f x)"

subsection \<open>Sorts of terms\<close>

text \<open>
  \<^verbatim>\<open>Z3_get_sort\<close> as Z3 derives it for the terms above; \<open>None\<close> stands for a term
  that Z3 does not accept as well sorted.
\<close>

definition sort_app1 :: "z3_unop \<Rightarrow> z3sort option \<Rightarrow> z3sort option" where
  "sort_app1 f a =
     (case a of
        None \<Rightarrow> None
      | Some s \<Rightarrow>
          (case f of
             Z3_mk_not \<Rightarrow> (if s = BoolSort then Some BoolSort else None)
           | Z3_mk_bvnot \<Rightarrow> (case s of BvSort n \<Rightarrow> Some (BvSort n) | _ \<Rightarrow> None)
           | Z3_mk_bvredor \<Rightarrow> (case s of BvSort n \<Rightarrow> Some (BvSort 1) | _ \<Rightarrow> None)
           | Z3_mk_fpa_abs \<Rightarrow> (case s of FpaSort e m \<Rightarrow> Some (FpaSort e m) | _ \<Rightarrow> None)
           | Z3_mk_fpa_to_ieee_bv \<Rightarrow> (case s of FpaSort e m \<Rightarrow> Some (BvSort (e + m)) | _ \<Rightarrow> None)
           | _ \<Rightarrow> (case s of FpaSort e m \<Rightarrow> Some BoolSort | _ \<Rightarrow> None)))"

definition is_bv_arith :: "z3_binop \<Rightarrow> bool" where
  "is_bv_arith f \<longleftrightarrow> f \<in> {Z3_mk_bvand, Z3_mk_bvor, Z3_mk_bvxor, Z3_mk_bvadd, Z3_mk_bvsub,
     Z3_mk_bvmul, Z3_mk_bvudiv, Z3_mk_bvsdiv, Z3_mk_bvurem, Z3_mk_bvsrem}"

definition is_bv_cmp :: "z3_binop \<Rightarrow> bool" where
  "is_bv_cmp f \<longleftrightarrow> f \<in> {Z3_mk_bvult, Z3_mk_bvule, Z3_mk_bvslt, Z3_mk_bvsle}"

definition is_fpa_cmp :: "z3_binop \<Rightarrow> bool" where
  "is_fpa_cmp f \<longleftrightarrow> f \<in> {Z3_mk_fpa_eq, Z3_mk_fpa_lt, Z3_mk_fpa_leq, Z3_mk_fpa_gt, Z3_mk_fpa_geq}"

definition is_fpa_sort :: "z3sort \<Rightarrow> bool" where
  "is_fpa_sort s = (case s of FpaSort e m \<Rightarrow> True | _ \<Rightarrow> False)"

definition is_bv_sort :: "z3sort \<Rightarrow> bool" where
  "is_bv_sort s = (case s of BvSort n \<Rightarrow> True | _ \<Rightarrow> False)"

definition sort_app2 :: "z3_binop \<Rightarrow> z3sort option \<Rightarrow> z3sort option \<Rightarrow> z3sort option" where
  "sort_app2 f a b =
     (case (a, b) of
        (Some s, Some t) \<Rightarrow>
          (if f = Z3_mk_eq then (if s = t then Some BoolSort else None)
           else if f = Z3_mk_iff \<or> f = Z3_mk_and \<or> f = Z3_mk_or
             then (if s = BoolSort \<and> t = BoolSort then Some BoolSort else None)
           else if f = Z3_mk_concat
             then (case (s, t) of (BvSort n, BvSort m) \<Rightarrow> Some (BvSort (n + m)) | _ \<Rightarrow> None)
           else if is_bv_arith f then (if is_bv_sort s \<and> s = t then Some s else None)
           else if is_bv_cmp f then (if is_bv_sort s \<and> s = t then Some BoolSort else None)
           else if f = Z3_mk_select
             then (case s of ArraySort d r \<Rightarrow> (if t = d then Some r else None) | _ \<Rightarrow> None)
           else if f = Z3_mk_fpa_sqrt \<or> f = Z3_mk_fpa_round_to_integral
             then (if s = RoundingModeSort \<and> is_fpa_sort t then Some t else None)
           else if is_fpa_cmp f then (if is_fpa_sort s \<and> s = t then Some BoolSort else None)
           else (if is_fpa_sort s \<and> s = t then Some s else None))
      | _ \<Rightarrow> None)"

definition sort_app3 ::
  "z3_ternop \<Rightarrow> z3sort option \<Rightarrow> z3sort option \<Rightarrow> z3sort option \<Rightarrow> z3sort option" where
  "sort_app3 f a b c =
     (case (a, b, c) of
        (Some s, Some t, Some u) \<Rightarrow>
          (case f of
             Z3_mk_ite \<Rightarrow> (if s = BoolSort \<and> t = u then Some t else None)
           | Z3_mk_store \<Rightarrow>
               (case s of ArraySort d r \<Rightarrow> (if t = d \<and> u = r then Some s else None) | _ \<Rightarrow> None)
           | Z3_mk_or3 \<Rightarrow>
               (if s = BoolSort \<and> t = BoolSort \<and> u = BoolSort then Some BoolSort else None)
           | Z3_mk_fpa_fp \<Rightarrow>
               (case (s, t, u) of
                  (BvSort n, BvSort e, BvSort m) \<Rightarrow> (if n = 1 then Some (FpaSort e (m + 1)) else None)
                | _ \<Rightarrow> None)
           | _ \<Rightarrow> (if s = RoundingModeSort \<and> is_fpa_sort t \<and> t = u then Some t else None))
      | _ \<Rightarrow> None)"

primrec Z3_get_sort :: "z3ast \<Rightarrow> z3sort option" where
  "Z3_get_sort Z3_mk_true = Some BoolSort"
| "Z3_get_sort Z3_mk_false = Some BoolSort"
| "Z3_get_sort (Z3_mk_unsigned_int v s) = (if is_bv_sort s then Some s else None)"
| "Z3_get_sort (Z3_mk_unsigned_int64 v s) = (if is_bv_sort s then Some s else None)"
| "Z3_get_sort (Z3_mk_int64 v s) = (if is_bv_sort s then Some s else None)"
| "Z3_get_sort (Z3_mk_const name s) = Some s"
| "Z3_get_sort (Z3_mk_extract high low t) =
     (case Z3_get_sort t of
        Some (BvSort n) \<Rightarrow> (if low \<le> high \<and> high < n then Some (BvSort (high - low + 1)) else None)
      | _ \<Rightarrow> None)"
| "Z3_get_sort (Z3_mk_sign_ext i t) =
     (case Z3_get_sort t of Some (BvSort n) \<Rightarrow> Some (BvSort (n + i)) | _ \<Rightarrow> None)"
| "Z3_get_sort Z3_mk_fpa_round_nearest_ties_to_even = Some RoundingModeSort"
| "Z3_get_sort Z3_mk_fpa_round_toward_positive = Some RoundingModeSort"
| "Z3_get_sort Z3_mk_fpa_round_toward_negative = Some RoundingModeSort"
| "Z3_get_sort Z3_mk_fpa_round_toward_zero = Some RoundingModeSort"
| "Z3_get_sort Z3_mk_fpa_round_nearest_ties_to_away = Some RoundingModeSort"
| "Z3_get_sort (Z3_mk_fpa_nan s) = (if is_fpa_sort s then Some s else None)"
| "Z3_get_sort (Z3_mk_fpa_zero s negative) = (if is_fpa_sort s then Some s else None)"
| "Z3_get_sort (Z3_mk_fpa_numeral_float v s) = (if is_fpa_sort s then Some s else None)"
| "Z3_get_sort (Z3_mk_fpa_numeral_double v s) = (if is_fpa_sort s then Some s else None)"
| "Z3_get_sort (Z3_mk_fpa_to_fp_float rm t s) =
     (case (Z3_get_sort rm, Z3_get_sort t) of
        (Some RoundingModeSort, Some (FpaSort e m)) \<Rightarrow> (if is_fpa_sort s then Some s else None)
      | _ \<Rightarrow> None)"
| "Z3_get_sort (Z3_mk_fpa_to_fp_unsigned rm t s) =
     (case (Z3_get_sort rm, Z3_get_sort t) of
        (Some RoundingModeSort, Some (BvSort n)) \<Rightarrow> (if is_fpa_sort s then Some s else None)
      | _ \<Rightarrow> None)"
| "Z3_get_sort (Z3_mk_fpa_to_fp_signed rm t s) =
     (case (Z3_get_sort rm, Z3_get_sort t) of
        (Some RoundingModeSort, Some (BvSort n)) \<Rightarrow> (if is_fpa_sort s then Some s else None)
      | _ \<Rightarrow> None)"
| "Z3_get_sort (Z3_mk_fpa_to_fp_bv t s) =
     (case (Z3_get_sort t, s) of
        (Some (BvSort n), FpaSort e m) \<Rightarrow> (if n = e + m then Some s else None)
      | _ \<Rightarrow> None)"
| "Z3_get_sort (Z3_mk_fpa_to_ubv rm t sz) =
     (case (Z3_get_sort rm, Z3_get_sort t) of
        (Some RoundingModeSort, Some (FpaSort e m)) \<Rightarrow> Some (BvSort sz)
      | _ \<Rightarrow> None)"
| "Z3_get_sort (Z3_mk_fpa_to_sbv rm t sz) =
     (case (Z3_get_sort rm, Z3_get_sort t) of
        (Some RoundingModeSort, Some (FpaSort e m)) \<Rightarrow> Some (BvSort sz)
      | _ \<Rightarrow> None)"
| "Z3_get_sort (Z3_app1 f a) = sort_app1 f (Z3_get_sort a)"
| "Z3_get_sort (Z3_app2 f a b) = sort_app2 f (Z3_get_sort a) (Z3_get_sort b)"
| "Z3_get_sort (Z3_app3 f a b c) = sort_app3 f (Z3_get_sort a) (Z3_get_sort b) (Z3_get_sort c)"

text \<open>
  \<^verbatim>\<open>Z3_get_bv_sort_size\<close> of a sort that is not a bitvector sort is a Z3 error, which
  the builder's error handler turns into \<^verbatim>\<open>abort()\<close>.
\<close>

definition getBVLength :: "z3ast \<Rightarrow> error + nat" where
  "getBVLength expr =
     (case Z3_get_sort expr of Some (BvSort n) \<Rightarrow> Inr n | _ \<Rightarrow> Inl SolverFatal)"

subsection \<open>Machine arithmetic on \<^verbatim>\<open>unsigned\<close> and \<^verbatim>\<open>int\<close>\<close>

text \<open>
  Widths and shift amounts are C++ \<^verbatim>\<open>unsigned\<close> values (32 bits); they are modelled as
  natural numbers below \<open>2 ^ 32\<close>, with the wrap-around of a subtraction and the conversion
  to \<^verbatim>\<open>int\<close> written out.
\<close>

definition usub :: "nat \<Rightarrow> nat \<Rightarrow> nat" where
  "usub a b = (if b \<le> a then a - b else a + 2 ^ 32 - b)"

definition int_of_unsigned :: "nat \<Rightarrow> int" where
  "int_of_unsigned u = (if u < 2 ^ 31 then int u else int u - 2 ^ 32)"

subsection \<open>Term constructors of the builder\<close>

definition getBvSort :: "nat \<Rightarrow> z3sort" where
  "getBvSort width = Z3_mk_bv_sort width"

definition getArraySort :: "z3sort \<Rightarrow> z3sort \<Rightarrow> z3sort" where
  "getArraySort domainSort rangeSort = Z3_mk_array_sort domainSort rangeSort"

definition buildArray :: "string \<Rightarrow> nat \<Rightarrow> nat \<Rightarrow> z3ast" where
  "buildArray name indexWidth valueWidth =
     Z3_mk_const name (getArraySort (getBvSort indexWidth) (getBvSort valueWidth))"

definition getTrue :: z3ast where "getTrue = Z3_mk_true"
definition getFalse :: z3ast where "getFalse = Z3_mk_false"

text \<open>The value parameters are \<^verbatim>\<open>uint32_t\<close> and \<^verbatim>\<open>uint64_t\<close>: an argument is truncated.\<close>

definition bvConst32 :: "nat \<Rightarrow> nat \<Rightarrow> z3ast" where
  "bvConst32 width v = Z3_mk_unsigned_int (v mod 2 ^ 32) (getBvSort width)"

definition bvConst64 :: "nat \<Rightarrow> nat \<Rightarrow> z3ast" where
  "bvConst64 width v = Z3_mk_unsigned_int64 (v mod 2 ^ 64) (getBvSort width)"

definition concatExpr :: "z3ast \<Rightarrow> z3ast \<Rightarrow> z3ast" where
  "concatExpr lhs rhs = Z3_app2 Z3_mk_concat lhs rhs"

definition concatExpr3 :: "z3ast \<Rightarrow> z3ast \<Rightarrow> z3ast \<Rightarrow> z3ast" where
  "concatExpr3 first second third =
     Z3_app2 Z3_mk_concat (Z3_app2 Z3_mk_concat first second) third"

definition concatExpr4 :: "z3ast \<Rightarrow> z3ast \<Rightarrow> z3ast \<Rightarrow> z3ast \<Rightarrow> z3ast" where
  "concatExpr4 first second third fourth =
     Z3_app2 Z3_mk_concat (Z3_app2 Z3_mk_concat (Z3_app2 Z3_mk_concat first second) third) fourth"

text \<open>
  \<^verbatim>\<open>for (width -= 64; width > 64; width -= 64) expr = concatExpr(zero, expr);\<close>
  The loop returns the remaining width and the term built so far.
\<close>

function bvZExtConst_loop :: "nat \<Rightarrow> z3ast \<Rightarrow> z3ast \<Rightarrow> nat \<times> z3ast" where
  "bvZExtConst_loop width zero expr =
     (if width > 64 then bvZExtConst_loop (width - 64) zero (concatExpr zero expr)
      else (width, expr))"
  by pat_completeness auto
termination
  by (relation "measure (\<lambda>(width, zero, expr). width)") auto

declare bvZExtConst_loop.simps [simp del]

definition bvZExtConst :: "nat \<Rightarrow> nat \<Rightarrow> z3ast" where
  "bvZExtConst width v =
     (if width \<le> 64 then bvConst64 width v
      else (case bvZExtConst_loop (width - 64) (bvConst64 64 0) (bvConst64 64 v) of
              (width', expr) \<Rightarrow> concatExpr (bvConst64 width' 0) expr))"

definition bvSExtConst :: "nat \<Rightarrow> nat \<Rightarrow> z3ast" where
  "bvSExtConst width v =
     (if width \<le> 64 then bvConst64 width v
      else if (v mod 2 ^ 64) div 2 ^ 63 \<noteq> 0
        then concatExpr (Z3_mk_int64 (- 1) (getBvSort (width - 64))) (bvConst64 64 v)
      else concatExpr (Z3_mk_int64 0 (getBvSort (width - 64))) (bvConst64 64 v))"

definition bvOne :: "nat \<Rightarrow> z3ast" where "bvOne width = bvZExtConst width 1"
definition bvZero :: "nat \<Rightarrow> z3ast" where "bvZero width = bvZExtConst width 0"

text \<open>\<^verbatim>\<open>(int64_t)-1\<close> passed as \<^verbatim>\<open>uint64_t\<close>.\<close>

definition bvMinusOne :: "nat \<Rightarrow> z3ast" where
  "bvMinusOne width = bvSExtConst width (2 ^ 64 - 1)"

definition bvExtract :: "z3ast \<Rightarrow> nat \<Rightarrow> nat \<Rightarrow> z3ast" where
  "bvExtract expr high low = Z3_mk_extract high low expr"

definition extractExpr :: "nat \<Rightarrow> nat \<Rightarrow> z3ast \<Rightarrow> z3ast" where
  "extractExpr high low expr = Z3_mk_extract high low expr"

definition eqExpr :: "z3ast \<Rightarrow> z3ast \<Rightarrow> z3ast" where
  "eqExpr a b = Z3_app2 Z3_mk_eq a b"

definition bvBoolExtract :: "z3ast \<Rightarrow> nat \<Rightarrow> z3ast" where
  "bvBoolExtract expr b = Z3_app2 Z3_mk_eq (bvExtract expr b b) (bvOne 1)"

definition notExpr :: "z3ast \<Rightarrow> z3ast" where "notExpr expr = Z3_app1 Z3_mk_not expr"
definition bvNotExpr :: "z3ast \<Rightarrow> z3ast" where "bvNotExpr expr = Z3_app1 Z3_mk_bvnot expr"
definition andExpr :: "z3ast \<Rightarrow> z3ast \<Rightarrow> z3ast" where "andExpr lhs rhs = Z3_app2 Z3_mk_and lhs rhs"
definition bvAndExpr :: "z3ast \<Rightarrow> z3ast \<Rightarrow> z3ast" where "bvAndExpr lhs rhs = Z3_app2 Z3_mk_bvand lhs rhs"
definition orExpr :: "z3ast \<Rightarrow> z3ast \<Rightarrow> z3ast" where "orExpr lhs rhs = Z3_app2 Z3_mk_or lhs rhs"
definition orExpr3 :: "z3ast \<Rightarrow> z3ast \<Rightarrow> z3ast \<Rightarrow> z3ast" where
  "orExpr3 first second third = Z3_app3 Z3_mk_or3 first second third"
definition bvOrExpr :: "z3ast \<Rightarrow> z3ast \<Rightarrow> z3ast" where "bvOrExpr lhs rhs = Z3_app2 Z3_mk_bvor lhs rhs"
definition bvXorExpr :: "z3ast \<Rightarrow> z3ast \<Rightarrow> z3ast" where "bvXorExpr lhs rhs = Z3_app2 Z3_mk_bvxor lhs rhs"
definition bvRedorExpr :: "z3ast \<Rightarrow> z3ast" where "bvRedorExpr expr = Z3_app1 Z3_mk_bvredor expr"

datatype z3_sort_kind =
  Z3_BOOL_SORT | Z3_BV_SORT | Z3_ARRAY_SORT | Z3_FLOATING_POINT_SORT | Z3_ROUNDING_MODE_SORT

definition Z3_get_sort_kind :: "z3sort \<Rightarrow> z3_sort_kind" where
  "Z3_get_sort_kind s =
     (case s of
        BoolSort \<Rightarrow> Z3_BOOL_SORT
      | BvSort n \<Rightarrow> Z3_BV_SORT
      | ArraySort d r \<Rightarrow> Z3_ARRAY_SORT
      | FpaSort e m \<Rightarrow> Z3_FLOATING_POINT_SORT
      | RoundingModeSort \<Rightarrow> Z3_ROUNDING_MODE_SORT)"

definition iffExpr :: "z3ast \<Rightarrow> z3ast \<Rightarrow> error + z3ast" where
  "iffExpr lhs rhs =
     (case (Z3_get_sort lhs, Z3_get_sort rhs) of
        (Some lhsSort, Some rhsSort) \<Rightarrow>
          (if Z3_get_sort_kind lhsSort \<noteq> Z3_get_sort_kind rhsSort
             then Inl (AssertionFailed ''lhs and rhs sorts must match'')
           else if Z3_get_sort_kind lhsSort \<noteq> Z3_BOOL_SORT
             then Inl (AssertionFailed ''args must have BOOL sort'')
           else Inr (Z3_app2 Z3_mk_iff lhs rhs))
      | _ \<Rightarrow> Inl SolverFatal)"

definition bvSignExtend :: "z3ast \<Rightarrow> nat \<Rightarrow> error + z3ast" where
  "bvSignExtend src width =
     bindE (getBVLength src) (\<lambda>src_width.
       if \<not> src_width \<le> width then Inl (AssertionFailed ''attempted to extend longer data'')
       else Inr (Z3_mk_sign_ext (width - src_width) src))"

definition isNanExpr :: "z3ast \<Rightarrow> z3ast" where "isNanExpr expr = Z3_app1 Z3_mk_fpa_is_nan expr"
definition isInfinityExpr :: "z3ast \<Rightarrow> z3ast" where
  "isInfinityExpr expr = Z3_app1 Z3_mk_fpa_is_infinite expr"
definition isFPZeroExpr :: "z3ast \<Rightarrow> z3ast" where "isFPZeroExpr expr = Z3_app1 Z3_mk_fpa_is_zero expr"
definition isSubnormalExpr :: "z3ast \<Rightarrow> z3ast" where
  "isSubnormalExpr expr = Z3_app1 Z3_mk_fpa_is_subnormal expr"
definition isFPNegativeExpr :: "z3ast \<Rightarrow> z3ast" where
  "isFPNegativeExpr expr = Z3_app1 Z3_mk_fpa_is_negative expr"

datatype roundingMode =
  rmNearestTiesToEven | rmTowardPositive | rmTowardNegative | rmTowardZero | rmNearestTiesToAway

definition getRoundingModeAST :: "roundingMode \<Rightarrow> z3ast" where
  "getRoundingModeAST rm =
     (case rm of
        rmNearestTiesToEven \<Rightarrow> Z3_mk_fpa_round_nearest_ties_to_even
      | rmTowardPositive \<Rightarrow> Z3_mk_fpa_round_toward_positive
      | rmTowardNegative \<Rightarrow> Z3_mk_fpa_round_toward_negative
      | rmTowardZero \<Rightarrow> Z3_mk_fpa_round_toward_zero
      | rmNearestTiesToAway \<Rightarrow> Z3_mk_fpa_round_nearest_ties_to_away)"

definition fpNan :: "z3sort \<Rightarrow> z3ast" where "fpNan srt = Z3_mk_fpa_nan srt"
definition fpZero :: "z3sort \<Rightarrow> z3ast" where "fpZero srt = Z3_mk_fpa_zero srt False"

definition writeExpr :: "z3ast \<Rightarrow> z3ast \<Rightarrow> z3ast \<Rightarrow> z3ast" where
  "writeExpr array index v = Z3_app3 Z3_mk_store array index v"

definition readExpr :: "z3ast \<Rightarrow> z3ast \<Rightarrow> z3ast" where
  "readExpr array index = Z3_app2 Z3_mk_select array index"

definition iteExpr :: "z3ast \<Rightarrow> z3ast \<Rightarrow> z3ast \<Rightarrow> z3ast" where
  "iteExpr condition whenTrue whenFalse = Z3_app3 Z3_mk_ite condition whenTrue whenFalse"

definition bvLtExpr :: "z3ast \<Rightarrow> z3ast \<Rightarrow> z3ast" where "bvLtExpr lhs rhs = Z3_app2 Z3_mk_bvult lhs rhs"
definition bvLeExpr :: "z3ast \<Rightarrow> z3ast \<Rightarrow> z3ast" where "bvLeExpr lhs rhs = Z3_app2 Z3_mk_bvule lhs rhs"
definition sbvLtExpr :: "z3ast \<Rightarrow> z3ast \<Rightarrow> z3ast" where "sbvLtExpr lhs rhs = Z3_app2 Z3_mk_bvslt lhs rhs"
definition sbvLeExpr :: "z3ast \<Rightarrow> z3ast \<Rightarrow> z3ast" where "sbvLeExpr lhs rhs = Z3_app2 Z3_mk_bvsle lhs rhs"

subsection \<open>Shifts\<close>

text \<open>Logical right and left shift by a constant.\<close>

definition bvRightShift :: "z3ast \<Rightarrow> nat \<Rightarrow> error + z3ast" where
  "bvRightShift expr shift =
     bindE (getBVLength expr) (\<lambda>width.
       if shift = 0 then Inr expr
       else if shift \<ge> width then Inr (bvZero width)
       else Inr (concatExpr (bvZero shift) (bvExtract expr (width - 1) shift)))"

definition bvLeftShift :: "z3ast \<Rightarrow> nat \<Rightarrow> error + z3ast" where
  "bvLeftShift expr shift =
     bindE (getBVLength expr) (\<lambda>width.
       if shift = 0 then Inr expr
       else if shift \<ge> width then Inr (bvZero width)
       else Inr (concatExpr (bvExtract expr (width - shift - 1) 0) (bvZero shift)))"

definition constructAShrByConstant :: "z3ast \<Rightarrow> nat \<Rightarrow> z3ast \<Rightarrow> error + z3ast" where
  "constructAShrByConstant expr shift isSigned =
     bindE (getBVLength expr) (\<lambda>width.
       if shift = 0 then Inr expr
       else if shift \<ge> width then Inr (bvZero width)
       else bindE (bvRightShift expr shift) (\<lambda>shifted.
              Inr (iteExpr isSigned
                     (concatExpr (bvMinusOne shift) (bvExtract expr (width - 1) shift))
                     shifted)))"

text \<open>
  The loops \<^verbatim>\<open>for (int i = width - 1; i >= 0; i--)\<close> of the shifts by a variable amount:
  one \<^verbatim>\<open>ite\<close> per candidate amount, the smallest amount outermost.
\<close>

function bvVarLeftShift_loop :: "z3ast \<Rightarrow> z3ast \<Rightarrow> nat \<Rightarrow> int \<Rightarrow> z3ast \<Rightarrow> error + z3ast" where
  "bvVarLeftShift_loop expr shift width i res =
     (if i \<ge> 0 then
        (case bvLeftShift expr (nat i) of
           Inl e \<Rightarrow> Inl e
         | Inr shifted \<Rightarrow>
             bvVarLeftShift_loop expr shift width (i - 1)
               (iteExpr (eqExpr shift (bvConst32 width (nat i))) shifted res))
      else Inr res)"
  by pat_completeness auto
termination
  by (relation "measure (\<lambda>(expr, shift, width, i, res). nat (i + 1))") auto

declare bvVarLeftShift_loop.simps [simp del]

definition bvVarLeftShift :: "z3ast \<Rightarrow> z3ast \<Rightarrow> error + z3ast" where
  "bvVarLeftShift expr shift =
     bindE (getBVLength expr) (\<lambda>width.
     bindE (bvVarLeftShift_loop expr shift width (int_of_unsigned (usub width 1)) (bvZero width)) (\<lambda>res.
     bindE (getBVLength shift) (\<lambda>shiftWidth.
       Inr (iteExpr (bvLtExpr shift (bvConst32 shiftWidth width)) res (bvZero width)))))"

function bvVarRightShift_loop :: "z3ast \<Rightarrow> z3ast \<Rightarrow> nat \<Rightarrow> int \<Rightarrow> z3ast \<Rightarrow> error + z3ast" where
  "bvVarRightShift_loop expr shift width i res =
     (if i \<ge> 0 then
        (case bvRightShift expr (nat i) of
           Inl e \<Rightarrow> Inl e
         | Inr shifted \<Rightarrow>
             bvVarRightShift_loop expr shift width (i - 1)
               (iteExpr (eqExpr shift (bvConst32 width (nat i))) shifted res))
      else Inr res)"
  by pat_completeness auto
termination
  by (relation "measure (\<lambda>(expr, shift, width, i, res). nat (i + 1))") auto

declare bvVarRightShift_loop.simps [simp del]

definition bvVarRightShift :: "z3ast \<Rightarrow> z3ast \<Rightarrow> error + z3ast" where
  "bvVarRightShift expr shift =
     bindE (getBVLength expr) (\<lambda>width.
     bindE (bvVarRightShift_loop expr shift width (int_of_unsigned (usub width 1)) (bvZero width)) (\<lambda>res.
     bindE (getBVLength shift) (\<lambda>shiftWidth.
       Inr (iteExpr (bvLtExpr shift (bvConst32 shiftWidth width)) res (bvZero width)))))"

function bvVarArithRightShift_loop ::
  "z3ast \<Rightarrow> z3ast \<Rightarrow> nat \<Rightarrow> z3ast \<Rightarrow> int \<Rightarrow> z3ast \<Rightarrow> error + z3ast" where
  "bvVarArithRightShift_loop expr shift width signedBool i res =
     (if i \<ge> 0 then
        (case constructAShrByConstant expr (nat i) signedBool of
           Inl e \<Rightarrow> Inl e
         | Inr shifted \<Rightarrow>
             bvVarArithRightShift_loop expr shift width signedBool (i - 1)
               (iteExpr (eqExpr shift (bvConst32 width (nat i))) shifted res))
      else Inr res)"
  by pat_completeness auto
termination
  by (relation "measure (\<lambda>(expr, shift, width, signedBool, i, res). nat (i + 1))") auto

declare bvVarArithRightShift_loop.simps [simp del]

definition bvVarArithRightShift :: "z3ast \<Rightarrow> z3ast \<Rightarrow> error + z3ast" where
  "bvVarArithRightShift expr shift =
     bindE (getBVLength expr) (\<lambda>width.
     let signedBool = bvBoolExtract expr (usub width 1) in
     bindE (constructAShrByConstant expr (usub width 1) signedBool) (\<lambda>res0.
     bindE (bvVarArithRightShift_loop expr shift width signedBool
              (int_of_unsigned (usub width 2)) res0) (\<lambda>res.
     bindE (getBVLength shift) (\<lambda>shiftWidth.
       Inr (iteExpr (bvLtExpr shift (bvConst32 shiftWidth width)) res (bvZero width))))))"

section \<open>Meaning of terms\<close>

text \<open>
  A value of a term under an interpretation \<open>I\<close>. The Boolean connectives, \<^verbatim>\<open>ite\<close>,
  equality, bitvector numerals, \<^verbatim>\<open>concat\<close>, \<^verbatim>\<open>extract\<close>, the unsigned comparisons and
  \<^verbatim>\<open>select\<close>/\<^verbatim>\<open>store\<close> are computed as SMT-LIB defines them; a bitvector is its width
  and its unsigned value, an array a function of the index value. Every other term
  (a free constant, a floating-point operation, bitvector arithmetic) has the value
  \<open>I\<close> gives it. Of the floating-point values only the NaN of a sort and its zeros are
  told apart from the others, which is what \<^verbatim>\<open>fp.isNaN\<close> needs. A connective whose value is decided by one operand (\<open>and\<close> with a false
  operand, \<open>or\<close> with a true one, \<^verbatim>\<open>ite\<close> by its condition) has that value whatever the
  other operands are; \<open>None\<close> is the value of an interpreted operator applied to values of
  the wrong shape.
\<close>

datatype fpval = FpNaN | FpZero bool | FpOther nat

datatype val = VBool bool | VBv nat nat | VFp fpval | VArr "nat \<Rightarrow> val"

definition eval_bv_numeral :: "int \<Rightarrow> z3sort \<Rightarrow> val option" where
  "eval_bv_numeral v s = (case s of BvSort w \<Rightarrow> Some (VBv w (nat (v mod 2 ^ w))) | _ \<Rightarrow> None)"

definition eval_and :: "val option \<Rightarrow> val option \<Rightarrow> val option" where
  "eval_and a b =
     (if a = Some (VBool False) \<or> b = Some (VBool False) then Some (VBool False)
      else (case (a, b) of (Some (VBool x), Some (VBool y)) \<Rightarrow> Some (VBool (x \<and> y)) | _ \<Rightarrow> None))"

definition eval_or :: "val option \<Rightarrow> val option \<Rightarrow> val option" where
  "eval_or a b =
     (if a = Some (VBool True) \<or> b = Some (VBool True) then Some (VBool True)
      else (case (a, b) of (Some (VBool x), Some (VBool y)) \<Rightarrow> Some (VBool (x \<or> y)) | _ \<Rightarrow> None))"

definition eval_app1 :: "z3_unop \<Rightarrow> val option \<Rightarrow> val \<Rightarrow> val option" where
  "eval_app1 f a dflt =
     (if f = Z3_mk_not then (case a of Some (VBool x) \<Rightarrow> Some (VBool (\<not> x)) | _ \<Rightarrow> None)
      else if f = Z3_mk_fpa_is_nan
        then (case a of Some (VFp x) \<Rightarrow> Some (VBool (x = FpNaN)) | _ \<Rightarrow> None)
      else Some dflt)"

definition eval_app2 :: "z3_binop \<Rightarrow> val option \<Rightarrow> val option \<Rightarrow> val \<Rightarrow> val option" where
  "eval_app2 f a b dflt =
     (if f = Z3_mk_eq then (case (a, b) of (Some x, Some y) \<Rightarrow> Some (VBool (x = y)) | _ \<Rightarrow> None)
      else if f = Z3_mk_iff
        then (case (a, b) of (Some (VBool x), Some (VBool y)) \<Rightarrow> Some (VBool (x = y)) | _ \<Rightarrow> None)
      else if f = Z3_mk_and then eval_and a b
      else if f = Z3_mk_or then eval_or a b
      else if f = Z3_mk_concat
        then (case (a, b) of
                (Some (VBv n x), Some (VBv m y)) \<Rightarrow> Some (VBv (n + m) (x * 2 ^ m + y))
              | _ \<Rightarrow> None)
      else if f = Z3_mk_bvult
        then (case (a, b) of
                (Some (VBv n x), Some (VBv m y)) \<Rightarrow> (if n = m then Some (VBool (x < y)) else None)
              | _ \<Rightarrow> None)
      else if f = Z3_mk_bvule
        then (case (a, b) of
                (Some (VBv n x), Some (VBv m y)) \<Rightarrow> (if n = m then Some (VBool (x \<le> y)) else None)
              | _ \<Rightarrow> None)
      else if f = Z3_mk_select
        then (case (a, b) of (Some (VArr g), Some (VBv n i)) \<Rightarrow> Some (g i) | _ \<Rightarrow> None)
      else Some dflt)"

definition eval_app3 ::
  "z3_ternop \<Rightarrow> val option \<Rightarrow> val option \<Rightarrow> val option \<Rightarrow> val \<Rightarrow> val option" where
  "eval_app3 f a b c dflt =
     (if f = Z3_mk_ite
        then (case a of Some (VBool x) \<Rightarrow> (if x then b else c) | _ \<Rightarrow> None)
      else if f = Z3_mk_store
        then (case (a, b, c) of
                (Some (VArr g), Some (VBv n i), Some v) \<Rightarrow> Some (VArr (g(i := v)))
              | _ \<Rightarrow> None)
      else if f = Z3_mk_or3 then eval_or a (eval_or b c)
      else Some dflt)"

primrec eval :: "(z3ast \<Rightarrow> val) \<Rightarrow> z3ast \<Rightarrow> val option" where
  "eval I Z3_mk_true = Some (VBool True)"
| "eval I Z3_mk_false = Some (VBool False)"
| "eval I (Z3_mk_unsigned_int v s) = eval_bv_numeral (int v) s"
| "eval I (Z3_mk_unsigned_int64 v s) = eval_bv_numeral (int v) s"
| "eval I (Z3_mk_int64 v s) = eval_bv_numeral v s"
| "eval I (Z3_mk_const name s) = Some (I (Z3_mk_const name s))"
| "eval I (Z3_mk_extract high low t) =
     (case eval I t of
        Some (VBv n x) \<Rightarrow>
          (if low \<le> high \<and> high < n
             then Some (VBv (high - low + 1) ((x div 2 ^ low) mod 2 ^ (high - low + 1)))
           else None)
      | _ \<Rightarrow> None)"
| "eval I (Z3_mk_sign_ext i t) = Some (I (Z3_mk_sign_ext i t))"
| "eval I Z3_mk_fpa_round_nearest_ties_to_even = Some (I Z3_mk_fpa_round_nearest_ties_to_even)"
| "eval I Z3_mk_fpa_round_toward_positive = Some (I Z3_mk_fpa_round_toward_positive)"
| "eval I Z3_mk_fpa_round_toward_negative = Some (I Z3_mk_fpa_round_toward_negative)"
| "eval I Z3_mk_fpa_round_toward_zero = Some (I Z3_mk_fpa_round_toward_zero)"
| "eval I Z3_mk_fpa_round_nearest_ties_to_away = Some (I Z3_mk_fpa_round_nearest_ties_to_away)"
| "eval I (Z3_mk_fpa_nan s) = Some (VFp FpNaN)"
| "eval I (Z3_mk_fpa_zero s negative) = Some (VFp (FpZero negative))"
| "eval I (Z3_mk_fpa_numeral_float v s) = Some (I (Z3_mk_fpa_numeral_float v s))"
| "eval I (Z3_mk_fpa_numeral_double v s) = Some (I (Z3_mk_fpa_numeral_double v s))"
| "eval I (Z3_mk_fpa_to_fp_float rm t s) = Some (I (Z3_mk_fpa_to_fp_float rm t s))"
| "eval I (Z3_mk_fpa_to_fp_unsigned rm t s) = Some (I (Z3_mk_fpa_to_fp_unsigned rm t s))"
| "eval I (Z3_mk_fpa_to_fp_signed rm t s) = Some (I (Z3_mk_fpa_to_fp_signed rm t s))"
| "eval I (Z3_mk_fpa_to_fp_bv t s) = Some (I (Z3_mk_fpa_to_fp_bv t s))"
| "eval I (Z3_mk_fpa_to_ubv rm t sz) = Some (I (Z3_mk_fpa_to_ubv rm t sz))"
| "eval I (Z3_mk_fpa_to_sbv rm t sz) = Some (I (Z3_mk_fpa_to_sbv rm t sz))"
| "eval I (Z3_app1 f a) = eval_app1 f (eval I a) (I (Z3_app1 f a))"
| "eval I (Z3_app2 f a b) = eval_app2 f (eval I a) (eval I b) (I (Z3_app2 f a b))"
| "eval I (Z3_app3 f a b c) = eval_app3 f (eval I a) (eval I b) (eval I c) (I (Z3_app3 f a b c))"


subsection \<open>The shift encodings as the specification describes them\<close>





section \<open>The expression IR\<close>

text \<open>
  The classes of \<^verbatim>\<open>klee/Expr.h\<close> as the builder uses them: the class an expression is
  cast to, with the kinds that share a class as a tag, and the fields and methods the
  builder reads. A \<^verbatim>\<open>ConstantExpr\<close> is its width and its value (below \<open>2 ^ width\<close>), an
  \<^verbatim>\<open>FConstantExpr\<close> its width and the bits of \<^verbatim>\<open>getAPValue().bitcastToAPInt()\<close>.
  The \<^verbatim>\<open>const Array *\<close> and \<^verbatim>\<open>const UpdateNode *\<close> keys of the array cache are the
  addresses of the objects, which the model keeps as a field.
\<close>

record Array =
  array_addr :: nat
  array_name :: string
  array_size :: nat
  getDomain :: nat
  getRange :: nat
  constantValues :: "(nat \<times> nat) list"

definition isConstantArray :: "Array \<Rightarrow> bool" where
  "isConstantArray root \<longleftrightarrow> constantValues root \<noteq> []"

datatype CastKind = ZExt | SExt
datatype FCastRoundKind = FExt | UToF | SToF
datatype CastRoundKind = FToU | FToS
datatype FUnaryKind = FAbs | FpClassify | FIsFinite | FIsNan | FIsInf
datatype FUnaryRoundKind = FSqrt | FNearbyInt
datatype BinaryKind =
  Add | Sub | Mul | UDiv | SDiv | URem | SRem | And | Or | Xor | Shl | LShr | AShr
datatype CmpKind = Eq | Ne | Ult | Ule | Ugt | Uge | Slt | Sle | Sgt | Sge
datatype FBinaryKind = FAdd | FSub | FMul | FDiv | FRem | FMin | FMax
datatype FCmpKind =
  FOrd | FUno | FUeq | FOeq | FUgt | FOgt | FUge | FOge | FUlt | FOlt | FUle | FOle | FUne | FOne

datatype expr =
    ConstantExpr nat nat
  | FConstantExpr nat nat
  | NotOptimizedExpr expr
  | ReadExpr Array UpdateNode_ptr expr
  | SelectExpr expr expr expr
  | FSelectExpr expr expr expr
  | ConcatExpr "expr list"
  | ExtractExpr expr nat nat
  | CastExpr CastKind expr nat
  | FCastRoundExpr FCastRoundKind expr nat roundingMode
  | CastRoundExpr CastRoundKind expr nat roundingMode
  | ExplicitFloatExpr expr
  | ExplicitIntExpr expr
  | FUnaryExpr FUnaryKind expr
  | FUnaryRoundExpr FUnaryRoundKind expr roundingMode
  | NotExpr expr
  | BinaryExpr BinaryKind expr expr
  | CmpExpr CmpKind expr expr
  | FBinaryExpr FBinaryKind expr expr roundingMode
  | FCmpExpr FCmpKind expr expr
and UpdateNode_ptr =
    NullNode
  | UpdateNode nat expr expr UpdateNode_ptr

text \<open>
  The fields, in the order of the constructor arguments:
  \<open>NotOptimizedExpr src\<close>; \<open>ReadExpr updates.root updates.head index\<close>;
  \<open>SelectExpr cond trueExpr falseExpr\<close> (and \<open>FSelectExpr\<close>); \<open>ConcatExpr kids\<close>;
  \<open>ExtractExpr expr offset width\<close>; \<open>CastExpr kind src width\<close>;
  \<open>FCastRoundExpr kind src width roundingMode\<close> (and \<open>CastRoundExpr\<close>);
  \<open>BinaryExpr kind left right\<close> (and \<open>CmpExpr\<close>, \<open>FCmpExpr\<close>);
  \<open>FBinaryExpr kind left right roundingMode\<close>;
  \<open>UpdateNode address index value next\<close>.
\<close>

definition dyn_cast_ConstantExpr :: "expr \<Rightarrow> (nat \<times> nat) option" where
  "dyn_cast_ConstantExpr e = (case e of ConstantExpr w v \<Rightarrow> Some (w, v) | _ \<Rightarrow> None)"

definition isa_ConstantExpr :: "expr \<Rightarrow> bool" where
  "isa_ConstantExpr e \<longleftrightarrow> dyn_cast_ConstantExpr e \<noteq> None"

text \<open>
  Modelled from the spec: the methods of \<^verbatim>\<open>ConstantExpr\<close> (\<^verbatim>\<open>klee/Expr.h\<close> is not
  among the sources). \<^verbatim>\<open>isTrue\<close> holds of the one-bit constant 1; \<^verbatim>\<open>Extract\<close> takes
  \<open>W\<close> bits from bit \<open>Offset\<close> on; \<^verbatim>\<open>getLimitedValue\<close> saturates at the largest
  \<^verbatim>\<open>uint64_t\<close>; \<^verbatim>\<open>ConstantExpr::alloc(v, w)\<close> truncates the value to the width.
\<close>

definition isTrue :: "nat \<times> nat \<Rightarrow> bool" where
  "isTrue CE \<longleftrightarrow> fst CE = 1 \<and> snd CE \<noteq> 0"

definition Extract_const :: "nat \<times> nat \<Rightarrow> nat \<Rightarrow> nat \<Rightarrow> nat \<times> nat" where
  "Extract_const CE Offset W = (W, (snd CE div 2 ^ Offset) mod 2 ^ W)"

definition getLimitedValue :: "nat \<times> nat \<Rightarrow> nat" where
  "getLimitedValue CE = min (snd CE) (2 ^ 64 - 1)"

definition ConstantExpr_alloc :: "nat \<Rightarrow> nat \<Rightarrow> nat \<times> nat" where
  "ConstantExpr_alloc v w = (w, v mod 2 ^ w)"

text \<open>
  Modelled from the spec: \<^verbatim>\<open>bits64::isPowerOfTwo\<close> and \<^verbatim>\<open>bits64::indexOfSingleBit\<close>
  of \<^verbatim>\<open>klee/util/Bits.h\<close>, which is not among the sources: whether a 64-bit value has
  exactly one bit set, and the index of that bit.
\<close>

function indexOfSingleBit :: "nat \<Rightarrow> nat" where
  "indexOfSingleBit x = (if x \<le> 1 then 0 else Suc (indexOfSingleBit (x div 2)))"
  by pat_completeness auto
termination
  by (relation "measure (\<lambda>x. x)") auto

declare indexOfSingleBit.simps [simp del]

definition isPowerOfTwo :: "nat \<Rightarrow> bool" where
  "isPowerOfTwo x \<longleftrightarrow> x \<noteq> 0 \<and> 2 ^ indexOfSingleBit x = x"

text \<open>
  Modelled from the spec: the classification macros of \<^verbatim>\<open>math.h\<close> (the values of
  glibc) and \<^verbatim>\<open>sizeof(int) * 8\<close>.
\<close>

definition FP_NAN :: nat where "FP_NAN = 0"
definition FP_INFINITE :: nat where "FP_INFINITE = 1"
definition FP_ZERO :: nat where "FP_ZERO = 2"
definition FP_SUBNORMAL :: nat where "FP_SUBNORMAL = 3"
definition FP_NORMAL :: nat where "FP_NORMAL = 4"
definition sizeof_int_bits :: nat where "sizeof_int_bits = 32"

section \<open>The builder\<close>

text \<open>
  The state of a \<^verbatim>\<open>Z3Builder\<close>: the construct cache \<^verbatim>\<open>constructed\<close> (an
  \<^verbatim>\<open>ExprHashMap\<close>, keyed by the expression), the two maps of \<^verbatim>\<open>_arr_hash\<close> (keyed by the
  address of the array and of the update node), the option \<^verbatim>\<open>use-construct-hash-z3\<close> and
  the counter \<^verbatim>\<open>stats::queryConstructs\<close>. A map is an association list; \<open>hash_assign\<close> is
  \<^verbatim>\<open>m[k] = v\<close> and \<open>hash_insert\<close> is \<^verbatim>\<open>m.insert(make_pair(k, v))\<close>, which keeps an entry
  that is already there.
\<close>

record Z3Builder =
  constructed :: "(expr \<times> (z3ast \<times> nat)) list"
  arr_array_hash :: "(nat \<times> z3ast) list"
  arr_update_node_hash :: "(nat \<times> z3ast) list"
  UseConstructHashZ3 :: bool
  queryConstructs :: nat

primrec hash_assign :: "'k \<Rightarrow> 'v \<Rightarrow> ('k \<times> 'v) list \<Rightarrow> ('k \<times> 'v) list" where
  "hash_assign k v [] = [(k, v)]"
| "hash_assign k v (p # m) = (if fst p = k then (k, v) # m else p # hash_assign k v m)"

definition hash_insert :: "'k \<Rightarrow> 'v \<Rightarrow> ('k \<times> 'v) list \<Rightarrow> ('k \<times> 'v) list" where
  "hash_insert k v m = (if map_of m k = None then hash_assign k v m else m)"

type_synonym 'a build = "Z3Builder \<Rightarrow> error + ('a \<times> Z3Builder)"

definition returnS :: "'a \<Rightarrow> 'a build" where
  "returnS x s = Inr (x, s)"

definition failS :: "error \<Rightarrow> 'a build" where
  "failS e s = Inl e"

definition bindS :: "'a build \<Rightarrow> ('a \<Rightarrow> 'b build) \<Rightarrow> 'b build" where
  "bindS m f s = (case m s of Inl e \<Rightarrow> Inl e | Inr (x, s') \<Rightarrow> f x s')"

definition liftE :: "error + 'a \<Rightarrow> 'a build" where
  "liftE m s = (case m of Inl e \<Rightarrow> Inl e | Inr x \<Rightarrow> Inr (x, s))"

definition assertE :: "bool \<Rightarrow> string \<Rightarrow> error + unit" where
  "assertE b msg = (if b then Inr () else Inl (AssertionFailed msg))"

text \<open>\<^verbatim>\<open>++stats::queryConstructs\<close>, the first statement of \<^verbatim>\<open>constructActual\<close>.\<close>

definition tick :: "'a build \<Rightarrow> 'a build" where
  "tick m s = m (s\<lparr>queryConstructs := queryConstructs s + 1\<rparr>)"

subsection \<open>Constants\<close>

text \<open>
  The loop of the \<^verbatim>\<open>Constant\<close> case for a constant wider than 64 bits: \<open>Tmp\<close> is the
  part of the constant not yet emitted.
\<close>

function Constant_loop :: "nat \<times> nat \<Rightarrow> z3ast \<Rightarrow> z3ast" where
  "Constant_loop Tmp Res =
     (if fst Tmp > 64 then
        (let Tmp' = Extract_const Tmp 64 (fst Tmp - 64);
             Width = min 64 (fst Tmp')
         in Constant_loop Tmp' (concatExpr (bvConst64 Width (snd (Extract_const Tmp' 0 Width))) Res))
      else Res)"
  by pat_completeness auto
termination
  by (relation "measure (\<lambda>(Tmp, Res). fst Tmp)") (auto simp: Extract_const_def)

declare Constant_loop.simps [simp del]

text \<open>
  The \<^verbatim>\<open>Constant\<close> case. \<^verbatim>\<open>getZExtValue(bits)\<close> asserts that the constant has at most
  \<open>bits\<close> bits, which the tests on the width before its calls ensure.
\<close>

definition construct_Constant :: "nat \<times> nat \<Rightarrow> z3ast \<times> nat" where
  "construct_Constant CE =
     (let width_out = fst CE in
      if width_out = 1 then ((if isTrue CE then getTrue else getFalse), width_out)
      else if width_out \<le> 32 then (bvConst32 width_out (snd CE), width_out)
      else if width_out \<le> 64 then (bvConst64 width_out (snd CE), width_out)
      else (Constant_loop CE (bvConst64 64 (snd (Extract_const CE 0 64))), width_out))"

definition f80_sort :: z3sort where
  "f80_sort = Z3_mk_fpa_sort 15 64"

text \<open>The array constant every 80-bit float starts from.\<close>

definition f80_array :: z3ast where
  "f80_array = Z3_mk_const ''[F80, unnormal]'' (getArraySort (getBvSort 1) f80_sort)"

text \<open>
  The \<^verbatim>\<open>FConstant\<close> case. A width other than 32, 64 and 80 leaves the inner
  \<^verbatim>\<open>switch\<close> and falls into the \<^verbatim>\<open>NotOptimized\<close> case, whose \<^verbatim>\<open>cast\<close> fails. The
  63 bits of the mantissa are passed to \<^verbatim>\<open>Z3_mk_unsigned_int\<close>, whose parameter is an
  \<^verbatim>\<open>unsigned\<close>.
\<close>

definition construct_FConstant :: "nat \<times> nat \<Rightarrow> error + z3ast \<times> nat" where
  "construct_FConstant CE =
     (let width_out = fst CE in
      if width_out = 32 then Inr (Z3_mk_fpa_numeral_float (snd CE) Z3_mk_fpa_sort_32, width_out)
      else if width_out = 64 then Inr (Z3_mk_fpa_numeral_double (snd CE) Z3_mk_fpa_sort_64, width_out)
      else if width_out = 80 then
        (let raw1 = (snd CE div 2 ^ 64) mod 2 ^ 64;
             raw0 = snd CE mod 2 ^ 64;
             sign = (raw1 div 2 ^ 15) mod 2;
             exp = raw1 mod 2 ^ 15;
             mnt = raw0;
             correctHiddenBit = ((exp = 0) = ((mnt div 2 ^ 63) mod 2 = 0));
             mnt = mnt mod 2 ^ 63;
             conv = Z3_app3 Z3_mk_fpa_fp
                      (Z3_mk_unsigned_int sign (Z3_mk_bv_sort 1))
                      (Z3_mk_unsigned_int exp (Z3_mk_bv_sort 15))
                      (Z3_mk_unsigned_int (mnt mod 2 ^ 32) (Z3_mk_bv_sort 63));
             arr = writeExpr f80_array (bvZero 1) conv
         in Inr (if correctHiddenBit then writeExpr arr (bvOne 1) (fpZero f80_sort)
                 else writeExpr arr (bvOne 1) (fpNan f80_sort), width_out))
      else Inl (AssertionFailed ''cast<Ty>() argument of incompatible type!''))"

text \<open>
  The three statements that build the array of an 80-bit result which is never unnormal:
  the number at index 0, \<open>fpZero\<close> at index 1.
\<close>

definition f80_pack :: "z3ast \<Rightarrow> z3ast" where
  "f80_pack result =
     (let arr = f80_array;
          arr = writeExpr arr (bvZero 1) result;
          arr = writeExpr arr (bvOne 1) (fpZero f80_sort)
      in arr)"

text \<open>\<open>wrongHiddenBit\<close> of one operand and of two operands.\<close>

definition wrongHiddenBit1 :: "z3ast \<Rightarrow> z3ast" where
  "wrongHiddenBit1 expr = isNanExpr (readExpr expr (bvOne 1))"

definition wrongHiddenBit2 :: "z3ast \<Rightarrow> z3ast \<Rightarrow> z3ast" where
  "wrongHiddenBit2 left right =
     orExpr (isNanExpr (readExpr left (bvOne 1))) (isNanExpr (readExpr right (bvOne 1)))"

subsection \<open>Casts\<close>

text \<open>
  The \<^verbatim>\<open>switch\<close> on the target width that chooses the floating-point sort; it has no
  case for another width, which leaves the sort handle empty (\<open>None\<close>; building a term
  with it is a Z3 error). Width 80 is handled by the callers before.
\<close>

definition fpa_sort_of_width :: "nat \<Rightarrow> z3sort option" where
  "fpa_sort_of_width w =
     (if w = 16 then Some Z3_mk_fpa_sort_16
      else if w = 32 then Some Z3_mk_fpa_sort_32
      else if w = 64 then Some Z3_mk_fpa_sort_64
      else if w = 128 then Some Z3_mk_fpa_sort_128
      else None)"

definition construct_Cast :: "CastKind \<Rightarrow> z3ast \<Rightarrow> nat \<Rightarrow> nat \<Rightarrow> error + z3ast \<times> nat" where
  "construct_Cast k src srcWidth width_out =
     (case k of
        ZExt \<Rightarrow>
          (if srcWidth = 1 then Inr (iteExpr src (bvOne width_out) (bvZero width_out), width_out)
           else Inr (concatExpr (bvZero (usub width_out srcWidth)) src, width_out))
      | SExt \<Rightarrow>
          (if srcWidth = 1 then Inr (iteExpr src (bvMinusOne width_out) (bvZero width_out), width_out)
           else bindE (bvSignExtend src width_out) (\<lambda>r. Inr (r, width_out))))"

definition construct_FCastRound ::
  "FCastRoundKind \<Rightarrow> roundingMode \<Rightarrow> z3ast \<Rightarrow> nat \<Rightarrow> nat \<Rightarrow> error + z3ast \<times> nat" where
  "construct_FCastRound k rm src srcWidth width_out =
     (case k of
        FExt \<Rightarrow>
          (if width_out = 80
             then Inr (f80_pack (Z3_mk_fpa_to_fp_float (getRoundingModeAST rm) src f80_sort), width_out)
           else (case fpa_sort_of_width width_out of
                   None \<Rightarrow> Inl SolverFatal
                 | Some srt \<Rightarrow>
                     (if srcWidth = 80 then
                        (let wrongHiddenBit = isNanExpr (readExpr src (bvOne 1));
                             src = readExpr src (bvZero 1)
                         in Inr (iteExpr wrongHiddenBit (fpNan srt)
                                   (Z3_mk_fpa_to_fp_float (getRoundingModeAST rm) src srt), width_out))
                      else Inr (Z3_mk_fpa_to_fp_float (getRoundingModeAST rm) src srt, width_out))))
      | UToF \<Rightarrow>
          (if width_out = 80
             then Inr (f80_pack (Z3_mk_fpa_to_fp_unsigned (getRoundingModeAST rm) src f80_sort), width_out)
           else (case fpa_sort_of_width width_out of
                   None \<Rightarrow> Inl SolverFatal
                 | Some srt \<Rightarrow> Inr (Z3_mk_fpa_to_fp_unsigned (getRoundingModeAST rm) src srt, width_out)))
      | SToF \<Rightarrow>
          (if width_out = 80
             then Inr (f80_pack (Z3_mk_fpa_to_fp_unsigned (getRoundingModeAST rm) src f80_sort), width_out)
           else (case fpa_sort_of_width width_out of
                   None \<Rightarrow> Inl SolverFatal
                 | Some srt \<Rightarrow> Inr (Z3_mk_fpa_to_fp_signed (getRoundingModeAST rm) src srt, width_out))))"

text \<open>
  \<^verbatim>\<open>std::numeric_limits<int32_t>::min()\<close> and \<^verbatim>\<open>std::numeric_limits<int64_t>::min()\<close>
  as the \<^verbatim>\<open>uint64_t\<close> argument of \<^verbatim>\<open>bvSExtConst\<close>.
\<close>

definition int32_min_u64 :: nat where "int32_min_u64 = 2 ^ 64 - 2 ^ 31"
definition int64_min_u64 :: nat where "int64_min_u64 = 2 ^ 63"

definition construct_CastRound ::
  "CastRoundKind \<Rightarrow> roundingMode \<Rightarrow> z3ast \<Rightarrow> nat \<Rightarrow> nat \<Rightarrow> z3ast \<times> nat" where
  "construct_CastRound k rm src srcWidth width_out =
     (case k of
        FToU \<Rightarrow>
          (if srcWidth = 80 then
             (let wrongHiddenBit = isNanExpr (readExpr src (bvOne 1));
                  src = readExpr src (bvZero 1)
              in (iteExpr wrongHiddenBit (bvZero width_out)
                    (Z3_mk_fpa_to_ubv (getRoundingModeAST rm) src width_out), width_out))
           else (Z3_mk_fpa_to_ubv (getRoundingModeAST rm) src width_out, width_out))
      | FToS \<Rightarrow>
          (if srcWidth = 80 then
             (let num = readExpr src (bvZero 1);
                  wrongHiddenBit = isNanExpr (readExpr src (bvOne 1))
              in if width_out = 32
                   then (iteExpr wrongHiddenBit (bvSExtConst 32 int32_min_u64)
                           (Z3_mk_fpa_to_sbv (getRoundingModeAST rm) src 32), width_out)
                 else if width_out = 64
                   then (iteExpr wrongHiddenBit (bvSExtConst 64 int64_min_u64)
                           (Z3_mk_fpa_to_sbv (getRoundingModeAST rm) src 64), width_out)
                 else (iteExpr wrongHiddenBit (bvZero width_out)
                         (Z3_mk_fpa_to_sbv (getRoundingModeAST rm) src width_out), width_out))
           else (Z3_mk_fpa_to_sbv (getRoundingModeAST rm) src width_out, width_out)))"

definition construct_ExplicitFloat :: "z3ast \<Rightarrow> nat \<Rightarrow> error + z3ast \<times> nat" where
  "construct_ExplicitFloat src width_out =
     (if width_out = 80 then
        (let sign = extractExpr 79 79 src;
             exp = extractExpr 78 64 src;
             hiddenBit = extractExpr 63 63 src;
             mnt = extractExpr 62 0 src;
             correctHiddenBit =
               eqExpr hiddenBit (iteExpr (eqExpr (bvRedorExpr exp) (bvZero 1)) (bvZero 1) (bvOne 1));
             arr = f80_array;
             arr = writeExpr arr (bvZero 1) (Z3_mk_fpa_to_fp_bv (concatExpr3 sign exp mnt) f80_sort);
             arr = writeExpr arr (bvOne 1) (iteExpr correctHiddenBit (fpZero f80_sort) (fpNan f80_sort))
         in Inr (arr, width_out))
      else (case fpa_sort_of_width width_out of
              None \<Rightarrow> Inl SolverFatal
            | Some srt \<Rightarrow> Inr (Z3_mk_fpa_to_fp_bv src srt, width_out)))"

definition construct_ExplicitInt :: "z3ast \<Rightarrow> nat \<Rightarrow> z3ast \<times> nat" where
  "construct_ExplicitInt src width_out =
     (let ret = Z3_app1 Z3_mk_fpa_to_ieee_bv src in
      if width_out = 80 then
        (let sign = extractExpr 78 78 ret;
             exp = extractExpr 77 63 ret;
             mnt = extractExpr 62 0 ret;
             ite = iteExpr (eqExpr (bvRedorExpr exp) (bvZero 1)) (bvZero 1) (bvOne 1)
         in (concatExpr4 sign exp ite mnt, width_out))
      else (ret, width_out))"

subsection \<open>Floating-point special functions\<close>

definition is_float_width :: "nat \<Rightarrow> bool" where
  "is_float_width w \<longleftrightarrow> w = 32 \<or> w = 64 \<or> w = 80"

definition construct_FUnary :: "FUnaryKind \<Rightarrow> z3ast \<Rightarrow> nat \<Rightarrow> error + z3ast \<times> nat" where
  "construct_FUnary k expr width_out =
     (case k of
        FAbs \<Rightarrow>
          bindE (assertE (is_float_width width_out) ''non-float argument to FAbs'') (\<lambda>_.
            if width_out = 80
              then Inr (writeExpr expr (bvZero 1) (Z3_app1 Z3_mk_fpa_abs (readExpr expr (bvZero 1))),
                        width_out)
            else Inr (Z3_app1 Z3_mk_fpa_abs expr, width_out))
      | FpClassify \<Rightarrow>
          bindE (assertE (is_float_width width_out) ''non-float argument to FpClassify'') (\<lambda>_.
            let expr = (if width_out = 80 then readExpr expr (bvZero 1) else expr);
                width_out = sizeof_int_bits
            in Inr (iteExpr (isNanExpr expr) (bvSExtConst width_out FP_NAN)
                     (iteExpr (isInfinityExpr expr) (bvSExtConst width_out FP_INFINITE)
                       (iteExpr (isFPZeroExpr expr) (bvSExtConst width_out FP_ZERO)
                         (iteExpr (isSubnormalExpr expr) (bvSExtConst width_out FP_SUBNORMAL)
                           (bvSExtConst width_out FP_NORMAL)))), width_out))
      | FIsFinite \<Rightarrow>
          bindE (assertE (is_float_width width_out) ''non-float argument to FIsFinite'') (\<lambda>_.
            let expr = (if width_out = 80 then readExpr expr (bvZero 1) else expr);
                width_out = sizeof_int_bits
            in Inr (iteExpr (orExpr (isNanExpr expr) (isInfinityExpr expr))
                      (bvZero width_out) (bvOne width_out), width_out))
      | FIsNan \<Rightarrow>
          bindE (assertE (is_float_width width_out) ''non-float argument to FIsNan'') (\<lambda>_.
            let expr = (if width_out = 80 then readExpr expr (bvZero 1) else expr);
                width_out = sizeof_int_bits
            in Inr (iteExpr (isNanExpr expr) (bvOne width_out) (bvZero width_out), width_out))
      | FIsInf \<Rightarrow>
          bindE (assertE (is_float_width width_out) ''non-float argument to FIsInf'') (\<lambda>_.
            if width_out = 80 then
              (let width_out = sizeof_int_bits;
                   wrongHiddenBit = isNanExpr (readExpr expr (bvOne 1));
                   expr = readExpr expr (bvZero 1)
               in Inr (iteExpr wrongHiddenBit (bvZero width_out)
                         (iteExpr (isInfinityExpr expr)
                            (iteExpr (isFPNegativeExpr expr) (bvMinusOne width_out) (bvOne width_out))
                            (bvZero width_out)), width_out))
            else
              (let width_out = sizeof_int_bits
               in Inr (iteExpr (isInfinityExpr expr)
                         (iteExpr (isFPNegativeExpr expr) (bvMinusOne width_out) (bvOne width_out))
                         (bvZero width_out), width_out))))"

definition construct_FUnaryRound ::
  "FUnaryRoundKind \<Rightarrow> roundingMode \<Rightarrow> z3ast \<Rightarrow> nat \<Rightarrow> error + z3ast \<times> nat" where
  "construct_FUnaryRound k rm expr width_out =
     (case k of
        FSqrt \<Rightarrow>
          bindE (assertE (is_float_width width_out) ''non-float argument to FSqrt'') (\<lambda>_.
            if width_out = 80 then
              (let wrongHiddenBit = isNanExpr (readExpr expr (bvOne 1));
                   expr = readExpr expr (bvZero 1);
                   result = iteExpr wrongHiddenBit (fpNan f80_sort)
                              (Z3_app2 Z3_mk_fpa_sqrt (getRoundingModeAST rm) expr)
               in Inr (f80_pack result, width_out))
            else Inr (Z3_app2 Z3_mk_fpa_sqrt (getRoundingModeAST rm) expr, width_out))
      | FNearbyInt \<Rightarrow>
          bindE (assertE (is_float_width width_out) ''non-float argument to FNearbyInt'') (\<lambda>_.
            if width_out = 80 then
              (let wrongHiddenBit = isNanExpr (readExpr expr (bvOne 1));
                   expr = readExpr expr (bvZero 1);
                   result = iteExpr wrongHiddenBit (fpNan f80_sort)
                              (Z3_app2 Z3_mk_fpa_round_to_integral (getRoundingModeAST rm) expr)
               in Inr (f80_pack result, width_out))
            else Inr (Z3_app2 Z3_mk_fpa_round_to_integral (getRoundingModeAST rm) expr, width_out)))"

subsection \<open>Floating-point arithmetic and comparisons\<close>

text \<open>
  \<^verbatim>\<open>FAdd\<close>, \<^verbatim>\<open>FSub\<close>, \<^verbatim>\<open>FMul\<close> and \<^verbatim>\<open>FDiv\<close> are the same code up to the Z3
  operation and the message of the assertion.
\<close>

definition construct_FArith ::
  "z3_ternop \<Rightarrow> string \<Rightarrow> roundingMode \<Rightarrow> z3ast \<Rightarrow> z3ast \<Rightarrow> nat \<Rightarrow> error + z3ast \<times> nat" where
  "construct_FArith f msg rm left right width_out =
     bindE (assertE (is_float_width width_out) msg) (\<lambda>_.
       if width_out = 80 then
         (let wrongHiddenBit = wrongHiddenBit2 left right;
              left = readExpr left (bvZero 1);
              right = readExpr right (bvZero 1);
              result = iteExpr wrongHiddenBit (fpNan f80_sort)
                         (Z3_app3 f (getRoundingModeAST rm) left right)
          in Inr (f80_pack result, width_out))
       else Inr (Z3_app3 f (getRoundingModeAST rm) left right, width_out))"

text \<open>\<^verbatim>\<open>FMin\<close> and \<^verbatim>\<open>FMax\<close>, the same code up to the Z3 operation.\<close>

definition construct_FMinMax ::
  "z3_binop \<Rightarrow> string \<Rightarrow> z3ast \<Rightarrow> z3ast \<Rightarrow> nat \<Rightarrow> error + z3ast \<times> nat" where
  "construct_FMinMax f msg left right width_out =
     bindE (assertE (is_float_width width_out) msg) (\<lambda>_.
       if width_out = 80 then
         (let wrongHiddenBitLeft = isNanExpr (readExpr left (bvOne 1));
              wrongHiddenBitRight = isNanExpr (readExpr right (bvOne 1));
              left = readExpr left (bvZero 1);
              right = readExpr right (bvZero 1);
              result = iteExpr wrongHiddenBitLeft
                         (iteExpr wrongHiddenBitRight left right)
                         (iteExpr wrongHiddenBitRight left (Z3_app2 f left right))
          in Inr (f80_pack result, width_out))
       else Inr (Z3_app2 f left right, width_out))"

definition construct_FBinary ::
  "FBinaryKind \<Rightarrow> roundingMode \<Rightarrow> z3ast \<Rightarrow> z3ast \<Rightarrow> nat \<Rightarrow> error + z3ast \<times> nat" where
  "construct_FBinary k rm left right width_out =
     (case k of
        FAdd \<Rightarrow> construct_FArith Z3_mk_fpa_add ''non-float argument to FAdd'' rm left right width_out
      | FSub \<Rightarrow> construct_FArith Z3_mk_fpa_sub ''non-float argument to FSub'' rm left right width_out
      | FMul \<Rightarrow> construct_FArith Z3_mk_fpa_mul ''non-float argument to FMul'' rm left right width_out
      | FDiv \<Rightarrow> construct_FArith Z3_mk_fpa_div ''non-float argument to FDiv'' rm left right width_out
      | FRem \<Rightarrow>
          bindE (assertE (is_float_width width_out) ''non-float argument to FRem'') (\<lambda>_.
            if width_out = 80 then
              (let wrongHiddenBit = wrongHiddenBit2 left right;
                   left = readExpr left (bvZero 1);
                   right = readExpr right (bvZero 1);
                   result = iteExpr wrongHiddenBit (fpNan f80_sort) (Z3_app2 Z3_mk_fpa_rem left right)
               in Inr (f80_pack result, width_out))
            else Inr (Z3_app2 Z3_mk_fpa_rem left right, width_out))
      | FMin \<Rightarrow> construct_FMinMax Z3_mk_fpa_min ''non-float argument to FMin'' left right width_out
      | FMax \<Rightarrow> construct_FMinMax Z3_mk_fpa_max ''non-float argument to FMax'' left right width_out)"

text \<open>
  The unordered comparisons \<^verbatim>\<open>FUeq\<close>, \<^verbatim>\<open>FUgt\<close>, \<^verbatim>\<open>FUge\<close>, \<^verbatim>\<open>FUlt\<close>, \<^verbatim>\<open>FUle\<close> are the
  same code up to the Z3 comparison and the message, and so are the ordered comparisons
  \<^verbatim>\<open>FOeq\<close>, \<^verbatim>\<open>FOgt\<close>, \<^verbatim>\<open>FOge\<close>, \<^verbatim>\<open>FOlt\<close>, \<^verbatim>\<open>FOle\<close>.
\<close>

definition construct_FUnordered ::
  "z3_binop \<Rightarrow> string \<Rightarrow> z3ast \<Rightarrow> z3ast \<Rightarrow> nat \<Rightarrow> error + z3ast \<times> nat" where
  "construct_FUnordered f msg left right width_out =
     bindE (assertE (is_float_width width_out) msg) (\<lambda>_.
       if width_out = 80 then
         (let wrongHiddenBit = wrongHiddenBit2 left right;
              left = readExpr left (bvZero 1);
              right = readExpr right (bvZero 1)
          in Inr (andExpr (notExpr wrongHiddenBit)
                    (orExpr3 (isNanExpr left) (isNanExpr right) (Z3_app2 f left right)), 1))
       else Inr (orExpr3 (isNanExpr left) (isNanExpr right) (Z3_app2 f left right), 1))"

definition construct_FOrdered ::
  "z3_binop \<Rightarrow> string \<Rightarrow> z3ast \<Rightarrow> z3ast \<Rightarrow> nat \<Rightarrow> error + z3ast \<times> nat" where
  "construct_FOrdered f msg left right width_out =
     bindE (assertE (is_float_width width_out) msg) (\<lambda>_.
       if width_out = 80 then
         (let wrongHiddenBit = wrongHiddenBit2 left right;
              left = readExpr left (bvZero 1);
              right = readExpr right (bvZero 1)
          in Inr (andExpr (notExpr wrongHiddenBit) (Z3_app2 f left right), 1))
       else Inr (Z3_app2 f left right, 1))"

definition construct_FCmp :: "FCmpKind \<Rightarrow> z3ast \<Rightarrow> z3ast \<Rightarrow> nat \<Rightarrow> error + z3ast \<times> nat" where
  "construct_FCmp k left right width_out =
     (case k of
        FOrd \<Rightarrow>
          bindE (assertE (is_float_width width_out) ''non-float argument to FOrd'') (\<lambda>_.
            let left = (if width_out = 80 then readExpr left (bvZero 1) else left);
                right = (if width_out = 80 then readExpr right (bvZero 1) else right)
            in Inr (andExpr (notExpr (isNanExpr left)) (notExpr (isNanExpr right)), 1))
      | FUno \<Rightarrow>
          bindE (assertE (is_float_width width_out) ''non-float argument to FUno'') (\<lambda>_.
            let left = (if width_out = 80 then readExpr left (bvZero 1) else left);
                right = (if width_out = 80 then readExpr right (bvZero 1) else right)
            in Inr (orExpr (isNanExpr left) (isNanExpr right), 1))
      | FUeq \<Rightarrow> construct_FUnordered Z3_mk_fpa_eq ''non-float argument to FUeq'' left right width_out
      | FOeq \<Rightarrow> construct_FOrdered Z3_mk_fpa_eq ''non-float argument to FOeq'' left right width_out
      | FUgt \<Rightarrow> construct_FUnordered Z3_mk_fpa_gt ''non-float argument to FUgt'' left right width_out
      | FOgt \<Rightarrow> construct_FOrdered Z3_mk_fpa_gt ''non-float argument to FOgt'' left right width_out
      | FUge \<Rightarrow> construct_FUnordered Z3_mk_fpa_geq ''non-float argument to FUge'' left right width_out
      | FOge \<Rightarrow> construct_FOrdered Z3_mk_fpa_geq ''non-float argument to FOge'' left right width_out
      | FUlt \<Rightarrow> construct_FUnordered Z3_mk_fpa_lt ''non-float argument to FUlt'' left right width_out
      | FOlt \<Rightarrow> construct_FOrdered Z3_mk_fpa_lt ''non-float argument to FOlt'' left right width_out
      | FUle \<Rightarrow> construct_FUnordered Z3_mk_fpa_leq ''non-float argument to FUle'' left right width_out
      | FOle \<Rightarrow> construct_FOrdered Z3_mk_fpa_leq ''non-float argument to FOle'' left right width_out
      | FUne \<Rightarrow>
          bindE (assertE (is_float_width width_out) ''non-float argument to FUne'') (\<lambda>_.
            if width_out = 80 then
              (let wrongHiddenBit = wrongHiddenBit2 left right;
                   left = readExpr left (bvZero 1);
                   right = readExpr right (bvZero 1)
               in Inr (orExpr wrongHiddenBit (notExpr (Z3_app2 Z3_mk_fpa_eq left right)), 1))
            else Inr (notExpr (Z3_app2 Z3_mk_fpa_eq left right), 1))
      | FOne \<Rightarrow>
          bindE (assertE (is_float_width width_out) ''non-float argument to FOne'') (\<lambda>_.
            if width_out = 80 then
              (let wrongHiddenBit = wrongHiddenBit2 left right;
                   left = readExpr left (bvZero 1);
                   right = readExpr right (bvZero 1)
               in Inr (orExpr wrongHiddenBit
                         (notExpr (orExpr3 (isNanExpr left) (isNanExpr right)
                                     (Z3_app2 Z3_mk_fpa_eq left right))), 1))
            else Inr (notExpr (orExpr3 (isNanExpr left) (isNanExpr right)
                                 (Z3_app2 Z3_mk_fpa_eq left right)), 1)))"

subsection \<open>Integer comparisons\<close>

text \<open>
  The comparisons after both operands are built; \<open>l\<close> is the left operand of the
  expression, which \<^verbatim>\<open>Eq\<close> tests for a constant. \<^verbatim>\<open>Ne\<close>, \<^verbatim>\<open>Ugt\<close>, \<^verbatim>\<open>Uge\<close>, \<^verbatim>\<open>Sgt\<close>
  and \<^verbatim>\<open>Sge\<close> have no case in the \<^verbatim>\<open>switch\<close>.
\<close>

definition unhandled_Cmp :: "CmpKind \<Rightarrow> bool" where
  "unhandled_Cmp k \<longleftrightarrow> k \<in> {Ne, Ugt, Uge, Sgt, Sge}"

definition construct_Cmp :: "CmpKind \<Rightarrow> expr \<Rightarrow> z3ast \<Rightarrow> z3ast \<Rightarrow> nat \<Rightarrow> error + z3ast \<times> nat" where
  "construct_Cmp k l left right width_out =
     (if k = Eq then
        (if width_out = 1 then
           (case dyn_cast_ConstantExpr l of
              Some CE \<Rightarrow> (if isTrue CE then Inr (right, width_out) else Inr (notExpr right, width_out))
            | None \<Rightarrow> bindE (iffExpr left right) (\<lambda>r. Inr (r, width_out)))
         else Inr (eqExpr left right, 1))
      else if k = Ult then
        bindE (assertE (width_out \<noteq> 1) ''uncanonicalized ult'') (\<lambda>_. Inr (bvLtExpr left right, 1))
      else if k = Ule then
        bindE (assertE (width_out \<noteq> 1) ''uncanonicalized ule'') (\<lambda>_. Inr (bvLeExpr left right, 1))
      else if k = Slt then
        bindE (assertE (width_out \<noteq> 1) ''uncanonicalized slt'') (\<lambda>_. Inr (sbvLtExpr left right, 1))
      else if k = Sle then
        bindE (assertE (width_out \<noteq> 1) ''uncanonicalized sle'') (\<lambda>_. Inr (sbvLeExpr left right, 1))
      else Inl (AssertionFailed ''unhandled Expr type''))"

subsection \<open>Integer arithmetic\<close>

text \<open>
  \<^verbatim>\<open>assert(getBVLength(result) == static_cast<unsigned>(*width_out) && "width mismatch")\<close>
\<close>

definition checked_result :: "z3ast \<Rightarrow> nat \<Rightarrow> error + z3ast \<times> nat" where
  "checked_result result width_out =
     bindE (getBVLength result) (\<lambda>n.
     bindE (assertE (n = width_out) ''width mismatch'') (\<lambda>_. Inr (result, width_out)))"

text \<open>
  The test of \<^verbatim>\<open>UDiv\<close> and \<^verbatim>\<open>URem\<close> on the divisor: a \<^verbatim>\<open>ConstantExpr\<close> of at most 64
  bits whose value is a power of two gives the index of its bit.
\<close>

definition constant_power_of_two :: "expr \<Rightarrow> nat option" where
  "constant_power_of_two right =
     (case dyn_cast_ConstantExpr right of
        Some CE \<Rightarrow>
          (if fst CE \<le> 64 then
             (let divisor = snd CE in
              if isPowerOfTwo divisor then Some (indexOfSingleBit divisor) else None)
           else None)
      | None \<Rightarrow> None)"

subsection \<open>Arrays\<close>

text \<open>\<^verbatim>\<open>llvm::itostr\<close> of a number that is not negative: its decimal digits.\<close>

function itostr :: "nat \<Rightarrow> string" where
  "itostr n = (if n < 10 then [char_of (48 + n)] else itostr (n div 10) @ [char_of (48 + n mod 10)])"
  by pat_completeness auto
termination
  by (relation "measure (\<lambda>n. n)") auto

declare itostr.simps [simp del]

text \<open>
  \<^verbatim>\<open>construct\<close> of a \<^verbatim>\<open>ConstantExpr\<close> goes to \<^verbatim>\<open>constructActual\<close> without a look at the
  cache, and there to the \<^verbatim>\<open>Constant\<close> case.
\<close>

definition construct_of_constant :: "nat \<times> nat \<Rightarrow> (z3ast \<times> nat) build" where
  "construct_of_constant CE = tick (returnS (construct_Constant CE))"

text \<open>
  The loop of \<^verbatim>\<open>getInitialArray\<close> that stores the values of a constant array, over the
  indices \<open>0..<size\<close>; of the two calls of \<^verbatim>\<open>construct\<close> in the argument list of
  \<^verbatim>\<open>writeExpr\<close> the one for the value is made first. An index beyond the vector of values
  is reported as a failed assertion.
\<close>

primrec flushConstantValues :: "Array \<Rightarrow> nat list \<Rightarrow> z3ast \<Rightarrow> z3ast build" where
  "flushConstantValues root [] array_expr = returnS array_expr"
| "flushConstantValues root (i # rest) array_expr =
     (if i < length (constantValues root) then
        bindS (construct_of_constant (constantValues root ! i)) (\<lambda>(v, w2).
        bindS (construct_of_constant (ConstantExpr_alloc i (getDomain root))) (\<lambda>(index, w1).
        flushConstantValues root rest (writeExpr array_expr index v)))
      else failS (AssertionFailed ''constantValues: index out of range''))"

definition getInitialArray :: "Array \<Rightarrow> z3ast build" where
  "getInitialArray root s =
     (case map_of (arr_array_hash s) (array_addr root) of
        Some array_expr \<Rightarrow> Inr (array_expr, s)
      | None \<Rightarrow>
          (let unique_id = itostr (length (arr_array_hash s));
               uid_length = length unique_id;
               space = (if length (array_name root) > usub 32 uid_length then usub 32 uid_length
                        else length (array_name root));
               unique_name = take space (array_name root) @ unique_id;
               array_expr = buildArray unique_name (getDomain root) (getRange root)
           in bindS
                (if isConstantArray root
                   then flushConstantValues root [0..<array_size root] array_expr
                 else returnS array_expr)
                (\<lambda>array_expr s'.
                   Inr (array_expr,
                        s'\<lparr>arr_array_hash :=
                             hash_assign (array_addr root) array_expr (arr_array_hash s')\<rparr>))
                s))"

definition getInitialRead :: "Array \<Rightarrow> nat \<Rightarrow> z3ast build" where
  "getInitialRead root index =
     bindS (getInitialArray root) (\<lambda>array. returnS (readExpr array (bvConst32 32 index)))"

subsection \<open>\<^verbatim>\<open>construct\<close> and \<^verbatim>\<open>constructActual\<close>\<close>

text \<open>
  Modelled from the spec: \<^verbatim>\<open>Expr::getWidth()\<close> (\<^verbatim>\<open>klee/Expr.h\<close> is not among the
  sources). Constants, reads, extracts and casts declare their width; a predicate has
  width 1, which the specification says of the comparisons and of the classification
  nodes \<^verbatim>\<open>FpClassify\<close>, \<^verbatim>\<open>FIsFinite\<close>, \<^verbatim>\<open>FIsNan\<close> and \<^verbatim>\<open>FIsInf\<close> alike; a
  concatenation has the sum of the widths of its kids; every other node has the width of
  its first operand.
\<close>

primrec getWidth :: "expr \<Rightarrow> nat" where
  "getWidth (ConstantExpr w v) = w"
| "getWidth (FConstantExpr w v) = w"
| "getWidth (NotOptimizedExpr src) = getWidth src"
| "getWidth (ReadExpr root head index) = getRange root"
| "getWidth (SelectExpr cond trueExpr falseExpr) = getWidth trueExpr"
| "getWidth (FSelectExpr cond trueExpr falseExpr) = getWidth trueExpr"
| "getWidth (ConcatExpr kids) = sum_list (map getWidth kids)"
| "getWidth (ExtractExpr e offset width) = width"
| "getWidth (CastExpr k src width) = width"
| "getWidth (FCastRoundExpr k src width rm) = width"
| "getWidth (CastRoundExpr k src width rm) = width"
| "getWidth (ExplicitFloatExpr src) = getWidth src"
| "getWidth (ExplicitIntExpr src) = getWidth src"
| "getWidth (FUnaryExpr k e) = (if k = FAbs then getWidth e else 1)"
| "getWidth (FUnaryRoundExpr k e rm) = getWidth e"
| "getWidth (NotExpr e) = getWidth e"
| "getWidth (BinaryExpr k left right) = getWidth left"
| "getWidth (CmpExpr k left right) = 1"
| "getWidth (FBinaryExpr k left right rm) = getWidth left"
| "getWidth (FCmpExpr k left right) = 1"

text \<open>
  \<^verbatim>\<open>construct\<close>, with the call of \<^verbatim>\<open>constructActual\<close> on the same expression as the
  argument \<open>actual\<close>: without the cache, or on a constant, it is that call; otherwise the
  cache answers, or the result of the call is inserted. A call that passes no \<^verbatim>\<open>width_out\<close>
  ignores the width that is returned.
\<close>

definition construct_with :: "(z3ast \<times> nat) build \<Rightarrow> expr \<Rightarrow> (z3ast \<times> nat) build" where
  "construct_with actual e s =
     (if \<not> UseConstructHashZ3 s \<or> isa_ConstantExpr e then actual s
      else (case map_of (constructed s) e of
              Some cached \<Rightarrow> Inr (cached, s)
            | None \<Rightarrow>
                (case actual s of
                   Inl err \<Rightarrow> Inl err
                 | Inr (res, s') \<Rightarrow>
                     Inr (res, s'\<lparr>constructed := hash_insert e res (constructed s')\<rparr>))))"

text \<open>
  \<^verbatim>\<open>constructActual\<close>, by recursion on the expression, together with
  \<^verbatim>\<open>getArrayForUpdate\<close> (by recursion on the update node, which is its first argument
  here) and the loop over the kids of a concatenation, from the last kid to the first.
  C++ leaves the order of the calls in an argument list open; where the builder has
  several calls in one list (\<^verbatim>\<open>Read\<close>, \<^verbatim>\<open>getArrayForUpdate\<close>, \<^verbatim>\<open>getInitialArray\<close>)
  they are made from the last argument to the first, as g++ compiles them.
\<close>

primrec constructActual :: "expr \<Rightarrow> (z3ast \<times> nat) build"
  and getArrayForUpdate_rec :: "UpdateNode_ptr \<Rightarrow> Array \<Rightarrow> z3ast build"
  and construct_kids :: "expr list \<Rightarrow> z3ast build"
where
  "constructActual (ConstantExpr w v) = tick (returnS (construct_Constant (w, v)))"
| "constructActual (FConstantExpr w v) = tick (liftE (construct_FConstant (w, v)))"
| "constructActual (NotOptimizedExpr src) = tick (construct_with (constructActual src) src)"
| "constructActual (ReadExpr root head index) =
     tick (bindS (construct_with (constructActual index) index) (\<lambda>(index', w).
           bindS (getArrayForUpdate_rec head root) (\<lambda>array.
           returnS (readExpr array index', getRange root))))"
| "constructActual (SelectExpr cond trueExpr falseExpr) =
     tick (bindS (construct_with (constructActual cond) cond) (\<lambda>(cond', w0).
           bindS (construct_with (constructActual trueExpr) trueExpr) (\<lambda>(tExpr, w1).
           bindS (construct_with (constructActual falseExpr) falseExpr) (\<lambda>(fExpr, width_out).
           returnS (iteExpr cond' tExpr fExpr, width_out)))))"
| "constructActual (FSelectExpr cond trueExpr falseExpr) =
     tick (bindS (construct_with (constructActual cond) cond) (\<lambda>(cond', w0).
           bindS (construct_with (constructActual trueExpr) trueExpr) (\<lambda>(tExpr, w1).
           bindS (construct_with (constructActual falseExpr) falseExpr) (\<lambda>(fExpr, width_out).
           returnS (iteExpr cond' tExpr fExpr, width_out)))))"
| "constructActual (ConcatExpr kids) =
     tick (bindS (construct_kids kids) (\<lambda>res.
           returnS (res, sum_list (map getWidth kids))))"
| "constructActual (ExtractExpr e offset width) =
     tick (bindS (construct_with (constructActual e) e) (\<lambda>(src, w0).
           let width_out = width in
           returnS (if width_out = 1 then bvBoolExtract src offset
                    else bvExtract src (offset + width_out - 1) offset, width_out)))"
| "constructActual (CastExpr k src width) =
     tick (bindS (construct_with (constructActual src) src) (\<lambda>(src', srcWidth).
           liftE (construct_Cast k src' srcWidth width)))"
| "constructActual (FCastRoundExpr k src width rm) =
     tick (bindS (construct_with (constructActual src) src) (\<lambda>(src', srcWidth).
           liftE (construct_FCastRound k rm src' srcWidth width)))"
| "constructActual (CastRoundExpr k src width rm) =
     tick (bindS (construct_with (constructActual src) src) (\<lambda>(src', srcWidth).
           returnS (construct_CastRound k rm src' srcWidth width)))"
| "constructActual (ExplicitFloatExpr src) =
     tick (bindS (construct_with (constructActual src) src) (\<lambda>(src', width_out).
           liftE (construct_ExplicitFloat src' width_out)))"
| "constructActual (ExplicitIntExpr src) =
     tick (bindS (construct_with (constructActual src) src) (\<lambda>(src', width_out).
           returnS (construct_ExplicitInt src' width_out)))"
| "constructActual (FUnaryExpr k e) =
     tick (bindS (construct_with (constructActual e) e) (\<lambda>(expr, width_out).
           liftE (construct_FUnary k expr width_out)))"
| "constructActual (FUnaryRoundExpr k e rm) =
     tick (bindS (construct_with (constructActual e) e) (\<lambda>(expr, width_out).
           liftE (construct_FUnaryRound k rm expr width_out)))"
| "constructActual (NotExpr e) =
     tick (bindS (construct_with (constructActual e) e) (\<lambda>(expr, width_out).
           returnS (if width_out = 1 then notExpr expr else bvNotExpr expr, width_out)))"
| "constructActual (BinaryExpr k l r) =
     tick (case k of
        Add \<Rightarrow>
          bindS (construct_with (constructActual l) l) (\<lambda>(left, w1).
          bindS (construct_with (constructActual r) r) (\<lambda>(right, width_out).
          liftE (bindE (assertE (width_out \<noteq> 1) ''uncanonicalized add'') (\<lambda>_.
                 checked_result (Z3_app2 Z3_mk_bvadd left right) width_out))))
      | Sub \<Rightarrow>
          bindS (construct_with (constructActual l) l) (\<lambda>(left, w1).
          bindS (construct_with (constructActual r) r) (\<lambda>(right, width_out).
          liftE (bindE (assertE (width_out \<noteq> 1) ''uncanonicalized sub'') (\<lambda>_.
                 checked_result (Z3_app2 Z3_mk_bvsub left right) width_out))))
      | Mul \<Rightarrow>
          bindS (construct_with (constructActual r) r) (\<lambda>(right, w1).
          bindS (liftE (assertE (w1 \<noteq> 1) ''uncanonicalized mul'')) (\<lambda>_.
          bindS (construct_with (constructActual l) l) (\<lambda>(left, width_out).
          liftE (checked_result (Z3_app2 Z3_mk_bvmul left right) width_out))))
      | UDiv \<Rightarrow>
          bindS (construct_with (constructActual l) l) (\<lambda>(left, w1).
          bindS (liftE (assertE (w1 \<noteq> 1) ''uncanonicalized udiv'')) (\<lambda>_.
          case constant_power_of_two r of
            Some bits \<Rightarrow> liftE (bindE (bvRightShift left bits) (\<lambda>res. Inr (res, w1)))
          | None \<Rightarrow>
              bindS (construct_with (constructActual r) r) (\<lambda>(right, width_out).
              liftE (checked_result (Z3_app2 Z3_mk_bvudiv left right) width_out))))
      | SDiv \<Rightarrow>
          bindS (construct_with (constructActual l) l) (\<lambda>(left, w1).
          bindS (liftE (assertE (w1 \<noteq> 1) ''uncanonicalized sdiv'')) (\<lambda>_.
          bindS (construct_with (constructActual r) r) (\<lambda>(right, width_out).
          liftE (checked_result (Z3_app2 Z3_mk_bvsdiv left right) width_out))))
      | URem \<Rightarrow>
          bindS (construct_with (constructActual l) l) (\<lambda>(left, w1).
          bindS (liftE (assertE (w1 \<noteq> 1) ''uncanonicalized urem'')) (\<lambda>_.
          case constant_power_of_two r of
            Some bits \<Rightarrow>
              returnS (if bits = 0 then bvZero w1
                       else concatExpr (bvZero (usub w1 bits)) (bvExtract left (bits - 1) 0), w1)
          | None \<Rightarrow>
              bindS (construct_with (constructActual r) r) (\<lambda>(right, width_out).
              liftE (checked_result (Z3_app2 Z3_mk_bvurem left right) width_out))))
      | SRem \<Rightarrow>
          bindS (construct_with (constructActual l) l) (\<lambda>(left, w1).
          bindS (construct_with (constructActual r) r) (\<lambda>(right, width_out).
          liftE (bindE (assertE (width_out \<noteq> 1) ''uncanonicalized srem'') (\<lambda>_.
                 checked_result (Z3_app2 Z3_mk_bvsrem left right) width_out))))
      | And \<Rightarrow>
          bindS (construct_with (constructActual l) l) (\<lambda>(left, w1).
          bindS (construct_with (constructActual r) r) (\<lambda>(right, width_out).
          returnS (if width_out = 1 then andExpr left right else bvAndExpr left right, width_out)))
      | Or \<Rightarrow>
          bindS (construct_with (constructActual l) l) (\<lambda>(left, w1).
          bindS (construct_with (constructActual r) r) (\<lambda>(right, width_out).
          returnS (if width_out = 1 then orExpr left right else bvOrExpr left right, width_out)))
      | Xor \<Rightarrow>
          bindS (construct_with (constructActual l) l) (\<lambda>(left, w1).
          bindS (construct_with (constructActual r) r) (\<lambda>(right, width_out).
          returnS (if width_out = 1 then iteExpr left (notExpr right) right
                   else bvXorExpr left right, width_out)))
      | Shl \<Rightarrow>
          bindS (construct_with (constructActual l) l) (\<lambda>(left, w1).
          bindS (liftE (assertE (w1 \<noteq> 1) ''uncanonicalized shl'')) (\<lambda>_.
          case dyn_cast_ConstantExpr r of
            Some CE \<Rightarrow>
              liftE (bindE (bvLeftShift left (getLimitedValue CE mod 2 ^ 32)) (\<lambda>res. Inr (res, w1)))
          | None \<Rightarrow>
              bindS (construct_with (constructActual r) r) (\<lambda>(amount, shiftWidth).
              liftE (bindE (bvVarLeftShift left amount) (\<lambda>res. Inr (res, w1))))))
      | LShr \<Rightarrow>
          bindS (construct_with (constructActual l) l) (\<lambda>(left, w1).
          bindS (liftE (assertE (w1 \<noteq> 1) ''uncanonicalized lshr'')) (\<lambda>_.
          case dyn_cast_ConstantExpr r of
            Some CE \<Rightarrow>
              liftE (bindE (bvRightShift left (getLimitedValue CE mod 2 ^ 32)) (\<lambda>res. Inr (res, w1)))
          | None \<Rightarrow>
              bindS (construct_with (constructActual r) r) (\<lambda>(amount, shiftWidth).
              liftE (bindE (bvVarRightShift left amount) (\<lambda>res. Inr (res, w1))))))
      | AShr \<Rightarrow>
          bindS (construct_with (constructActual l) l) (\<lambda>(left, w1).
          bindS (liftE (assertE (w1 \<noteq> 1) ''uncanonicalized ashr'')) (\<lambda>_.
          case dyn_cast_ConstantExpr r of
            Some CE \<Rightarrow>
              (let shift = getLimitedValue CE mod 2 ^ 32;
                   signedBool = bvBoolExtract left (usub w1 1)
               in liftE (bindE (constructAShrByConstant left shift signedBool) (\<lambda>res. Inr (res, w1))))
          | None \<Rightarrow>
              bindS (construct_with (constructActual r) r) (\<lambda>(amount, shiftWidth).
              liftE (bindE (bvVarArithRightShift left amount) (\<lambda>res. Inr (res, w1)))))))"
| "constructActual (CmpExpr k l r) =
     tick (if unhandled_Cmp k then failS (AssertionFailed ''unhandled Expr type'')
           else bindS (construct_with (constructActual l) l) (\<lambda>(left, w1).
                bindS (construct_with (constructActual r) r) (\<lambda>(right, width_out).
                liftE (construct_Cmp k l left right width_out))))"
| "constructActual (FBinaryExpr k l r rm) =
     tick (bindS (construct_with (constructActual l) l) (\<lambda>(left, w1).
           bindS (construct_with (constructActual r) r) (\<lambda>(right, width_out).
           liftE (construct_FBinary k rm left right width_out))))"
| "constructActual (FCmpExpr k l r) =
     tick (bindS (construct_with (constructActual l) l) (\<lambda>(left, w1).
           bindS (construct_with (constructActual r) r) (\<lambda>(right, width_out).
           liftE (construct_FCmp k left right width_out))))"
| "getArrayForUpdate_rec NullNode root = getInitialArray root"
| "getArrayForUpdate_rec (UpdateNode un index v next) root =
     (\<lambda>s. case map_of (arr_update_node_hash s) un of
             Some un_expr \<Rightarrow> Inr (un_expr, s)
           | None \<Rightarrow>
               bindS (construct_with (constructActual v) v) (\<lambda>(value', w2).
               bindS (construct_with (constructActual index) index) (\<lambda>(index', w1).
               bindS (getArrayForUpdate_rec next root) (\<lambda>array.
               let un_expr = writeExpr array index' value' in
               (\<lambda>s'. Inr (un_expr,
                          s'\<lparr>arr_update_node_hash :=
                               hash_assign un un_expr (arr_update_node_hash s')\<rparr>))))) s)"
| "construct_kids [] = failS (AssertionFailed ''getKid: index out of range'')"
| "construct_kids (kid # rest) =
     (if rest = [] then bindS (construct_with (constructActual kid) kid) (\<lambda>(res, w). returnS res)
      else bindS (construct_kids rest) (\<lambda>res.
           bindS (construct_with (constructActual kid) kid) (\<lambda>(kid', w).
           returnS (concatExpr kid' res))))"

definition construct :: "expr \<Rightarrow> (z3ast \<times> nat) build" where
  "construct e = construct_with (constructActual e) e"

definition getArrayForUpdate :: "Array \<Rightarrow> UpdateNode_ptr \<Rightarrow> z3ast build" where
  "getArrayForUpdate root un = getArrayForUpdate_rec un root"

text \<open>A builder as its constructor leaves it, with the option at the given value.\<close>

definition new_Z3Builder :: "bool \<Rightarrow> Z3Builder" where
  "new_Z3Builder useHash =
     \<lparr>constructed = [], arr_array_hash = [], arr_update_node_hash = [],
      UseConstructHashZ3 = useHash, queryConstructs = 0\<rparr>"

section \<open>Notions used in the statements\<close>


text \<open>Whether \<open>u\<close> is a subterm of a term.\<close>

primrec occurs :: "z3ast \<Rightarrow> z3ast \<Rightarrow> bool" where
  "occurs u Z3_mk_true = (u = Z3_mk_true)"
| "occurs u Z3_mk_false = (u = Z3_mk_false)"
| "occurs u (Z3_mk_unsigned_int v s) = (u = Z3_mk_unsigned_int v s)"
| "occurs u (Z3_mk_unsigned_int64 v s) = (u = Z3_mk_unsigned_int64 v s)"
| "occurs u (Z3_mk_int64 v s) = (u = Z3_mk_int64 v s)"
| "occurs u (Z3_mk_const name s) = (u = Z3_mk_const name s)"
| "occurs u (Z3_mk_extract high low t) = (u = Z3_mk_extract high low t \<or> occurs u t)"
| "occurs u (Z3_mk_sign_ext i t) = (u = Z3_mk_sign_ext i t \<or> occurs u t)"
| "occurs u Z3_mk_fpa_round_nearest_ties_to_even = (u = Z3_mk_fpa_round_nearest_ties_to_even)"
| "occurs u Z3_mk_fpa_round_toward_positive = (u = Z3_mk_fpa_round_toward_positive)"
| "occurs u Z3_mk_fpa_round_toward_negative = (u = Z3_mk_fpa_round_toward_negative)"
| "occurs u Z3_mk_fpa_round_toward_zero = (u = Z3_mk_fpa_round_toward_zero)"
| "occurs u Z3_mk_fpa_round_nearest_ties_to_away = (u = Z3_mk_fpa_round_nearest_ties_to_away)"
| "occurs u (Z3_mk_fpa_nan s) = (u = Z3_mk_fpa_nan s)"
| "occurs u (Z3_mk_fpa_zero s negative) = (u = Z3_mk_fpa_zero s negative)"
| "occurs u (Z3_mk_fpa_numeral_float v s) = (u = Z3_mk_fpa_numeral_float v s)"
| "occurs u (Z3_mk_fpa_numeral_double v s) = (u = Z3_mk_fpa_numeral_double v s)"
| "occurs u (Z3_mk_fpa_to_fp_float rm t s) =
     (u = Z3_mk_fpa_to_fp_float rm t s \<or> occurs u rm \<or> occurs u t)"
| "occurs u (Z3_mk_fpa_to_fp_unsigned rm t s) =
     (u = Z3_mk_fpa_to_fp_unsigned rm t s \<or> occurs u rm \<or> occurs u t)"
| "occurs u (Z3_mk_fpa_to_fp_signed rm t s) =
     (u = Z3_mk_fpa_to_fp_signed rm t s \<or> occurs u rm \<or> occurs u t)"
| "occurs u (Z3_mk_fpa_to_fp_bv t s) = (u = Z3_mk_fpa_to_fp_bv t s \<or> occurs u t)"
| "occurs u (Z3_mk_fpa_to_ubv rm t sz) =
     (u = Z3_mk_fpa_to_ubv rm t sz \<or> occurs u rm \<or> occurs u t)"
| "occurs u (Z3_mk_fpa_to_sbv rm t sz) =
     (u = Z3_mk_fpa_to_sbv rm t sz \<or> occurs u rm \<or> occurs u t)"
| "occurs u (Z3_app1 f a) = (u = Z3_app1 f a \<or> occurs u a)"
| "occurs u (Z3_app2 f a b) = (u = Z3_app2 f a b \<or> occurs u a \<or> occurs u b)"
| "occurs u (Z3_app3 f a b c) = (u = Z3_app3 f a b c \<or> occurs u a \<or> occurs u b \<or> occurs u c)"

text \<open>The value of the term a call of the builder returns, if it returns one.\<close>

definition value_of :: "(z3ast \<Rightarrow> val) \<Rightarrow> error + ((z3ast \<times> nat) \<times> Z3Builder) \<Rightarrow> val option" where
  "value_of I res = (case res of Inl e \<Rightarrow> None | Inr ((t, w), s) \<Rightarrow> eval I t)"

text \<open>The term and the width a call of the builder returns, without the state.\<close>

definition result_of :: "error + ((z3ast \<times> nat) \<times> Z3Builder) \<Rightarrow> error + (z3ast \<times> nat)" where
  "result_of res = (case res of Inl e \<Rightarrow> Inl e | Inr (r, s) \<Rightarrow> Inr r)"

text \<open>
  The specification describes a constant wider than 64 bits as the chunks of 64 bits from
  the low end, the last chunk of the remaining width, concatenated with each next chunk on
  the high side. \<open>constant_chunks\<close> lists the chunks (width and value), the lowest first, and
  \<open>concat_chunks\<close> is that concatenation.
\<close>

function constant_chunks :: "nat \<Rightarrow> nat \<Rightarrow> (nat \<times> nat) list" where
  "constant_chunks w v =
     (if w \<le> 64 then [(w, v)] else (64, v mod 2 ^ 64) # constant_chunks (w - 64) (v div 2 ^ 64))"
  by pat_completeness auto
termination
  by (relation "measure (\<lambda>(w, v). w)") auto

declare constant_chunks.simps [simp del]

definition concat_chunks :: "(nat \<times> nat) list \<Rightarrow> z3ast" where
  "concat_chunks cs =
     foldl (\<lambda>res c. concatExpr (bvConst64 (fst c) (snd c)) res)
       (bvConst64 (fst (hd cs)) (snd (hd cs))) (tl cs)"

text \<open>The Z3 comparison of an ordered or unordered floating-point comparison kind.\<close>

definition native_cmp :: "FCmpKind \<Rightarrow> z3_binop" where
  "native_cmp k =
     (if k = FOgt \<or> k = FUgt then Z3_mk_fpa_gt
      else if k = FOge \<or> k = FUge then Z3_mk_fpa_geq
      else if k = FOlt \<or> k = FUlt then Z3_mk_fpa_lt
      else if k = FOle \<or> k = FUle then Z3_mk_fpa_leq
      else Z3_mk_fpa_eq)"

text \<open>
  Whether the term a call returns is unnormal under an interpretation: the value of
  \<open>is_nan\<close> of its index 1.
\<close>

definition unnormal_under :: "(z3ast \<Rightarrow> val) \<Rightarrow> error + ((z3ast \<times> nat) \<times> Z3Builder) \<Rightarrow> val option" where
  "unnormal_under I res = (case res of Inl e \<Rightarrow> None | Inr ((t, w), s) \<Rightarrow> eval I (wrongHiddenBit1 t))"

subsection \<open>Widths and sorts of the results\<close>

text \<open>
  The classification nodes, and the width \<^verbatim>\<open>construct\<close> is to report for a node: the
  width of the node, except for a classification node, for which the builder writes
  \<^verbatim>\<open>sizeof(int) * 8\<close>.
\<close>

definition is_classify :: "expr \<Rightarrow> bool" where
  "is_classify e = (case e of FUnaryExpr k x \<Rightarrow> k \<noteq> FAbs | _ \<Rightarrow> False)"

definition reported_width :: "expr \<Rightarrow> nat" where
  "reported_width e = (if is_classify e then 32 else getWidth e)"

text \<open>
  The sorts that go with a width: the Boolean sort with width 1, the bitvectors of \<open>w\<close>
  bits with another width \<open>w\<close>, the floating-point sort of \<open>w\<close> bits with the widths 16, 32,
  64 and 128, and the array of an 80-bit float with width 80. \<open>sort_ok w t\<close> says that the
  sort of \<open>t\<close> goes with \<open>w\<close> if \<open>t\<close> is well sorted.
\<close>

definition fits_width :: "nat \<Rightarrow> z3sort \<Rightarrow> bool" where
  "fits_width w srt \<longleftrightarrow>
     (w = 1 \<and> srt = BoolSort) \<or> (w \<noteq> 1 \<and> srt = BvSort w)
     \<or> fpa_sort_of_width w = Some srt
     \<or> (w = 80 \<and> srt = ArraySort (BvSort 1) (FpaSort 15 64))"

definition sort_ok :: "nat \<Rightarrow> z3ast \<Rightarrow> bool" where
  "sort_ok w t = (case Z3_get_sort t of None \<Rightarrow> True | Some srt \<Rightarrow> fits_width w srt)"

text \<open>
  The invariants of the IR that the statements on widths and sorts need. All arrays have
  elements of the same width \<open>R\<close> (8 in KLEE), which is not 1. The value of a constant is
  below \<open>2 ^ width\<close>. Both branches of a select and both operands of an integer or
  floating-point binary operation have the same width. An extract has a positive width, a
  \<^verbatim>\<open>ZExt\<close> or \<^verbatim>\<open>SExt\<close> widens its operand to more than one bit, and \<^verbatim>\<open>FToU\<close> and
  \<^verbatim>\<open>FToS\<close> do not convert to one bit. No node takes its width from a classification node:
  such a node is an operand of comparisons, casts, extracts and conversions only.
  \<open>wf_expr R e\<close> says this of every node of \<open>e\<close>, including the nodes of the update
  lists.
\<close>

primrec wf_expr :: "nat \<Rightarrow> expr \<Rightarrow> bool"
  and wf_un :: "nat \<Rightarrow> UpdateNode_ptr \<Rightarrow> bool"
  and wf_kids :: "nat \<Rightarrow> expr list \<Rightarrow> bool"
where
  "wf_expr R (ConstantExpr w v) = (v < 2 ^ w)"
| "wf_expr R (FConstantExpr w v) = True"
| "wf_expr R (NotOptimizedExpr src) = (wf_expr R src \<and> \<not> is_classify src)"
| "wf_expr R (ReadExpr root head index) =
     (wf_un R head \<and> wf_expr R index \<and> getRange root = R \<and> R \<noteq> 1)"
| "wf_expr R (SelectExpr cond trueExpr falseExpr) =
     (wf_expr R cond \<and> wf_expr R trueExpr \<and> wf_expr R falseExpr
      \<and> getWidth trueExpr = getWidth falseExpr
      \<and> \<not> is_classify trueExpr \<and> \<not> is_classify falseExpr)"
| "wf_expr R (FSelectExpr cond trueExpr falseExpr) =
     (wf_expr R cond \<and> wf_expr R trueExpr \<and> wf_expr R falseExpr
      \<and> getWidth trueExpr = getWidth falseExpr
      \<and> \<not> is_classify trueExpr \<and> \<not> is_classify falseExpr)"
| "wf_expr R (ConcatExpr kids) = wf_kids R kids"
| "wf_expr R (ExtractExpr e offset width) = (wf_expr R e \<and> 0 < width)"
| "wf_expr R (CastExpr k src width) = (wf_expr R src \<and> reported_width src < width \<and> 1 < width)"
| "wf_expr R (FCastRoundExpr k src width rm) = wf_expr R src"
| "wf_expr R (CastRoundExpr k src width rm) = (wf_expr R src \<and> width \<noteq> 1)"
| "wf_expr R (ExplicitFloatExpr src) = (wf_expr R src \<and> \<not> is_classify src)"
| "wf_expr R (ExplicitIntExpr src) = (wf_expr R src \<and> \<not> is_classify src)"
| "wf_expr R (FUnaryExpr k e) = (wf_expr R e \<and> (k = FAbs \<longrightarrow> \<not> is_classify e))"
| "wf_expr R (FUnaryRoundExpr k e rm) = (wf_expr R e \<and> \<not> is_classify e)"
| "wf_expr R (NotExpr e) = (wf_expr R e \<and> \<not> is_classify e)"
| "wf_expr R (BinaryExpr k l r) =
     (wf_expr R l \<and> wf_expr R r \<and> getWidth l = getWidth r
      \<and> \<not> is_classify l \<and> \<not> is_classify r)"
| "wf_expr R (CmpExpr k l r) = (wf_expr R l \<and> wf_expr R r)"
| "wf_expr R (FBinaryExpr k l r rm) =
     (wf_expr R l \<and> wf_expr R r \<and> getWidth l = getWidth r
      \<and> \<not> is_classify l \<and> \<not> is_classify r)"
| "wf_expr R (FCmpExpr k l r) = (wf_expr R l \<and> wf_expr R r)"
| "wf_un R NullNode = True"
| "wf_un R (UpdateNode un index v next) = (wf_expr R index \<and> wf_expr R v \<and> wf_un R next)"
| "wf_kids R [] = True"
| "wf_kids R (kid # rest) = (wf_expr R kid \<and> \<not> is_classify kid \<and> wf_kids R rest)"

text \<open>
  The caches of a builder are consistent: the construct cache holds, for every expression
  in it, the width to report for the expression and a term whose sort goes with that width;
  the terms of the two array caches are, if well sorted, arrays with elements of \<open>R\<close> bits.
  A new builder has empty caches.
\<close>

definition entry_ok :: "expr \<Rightarrow> z3ast \<times> nat \<Rightarrow> bool" where
  "entry_ok e res \<longleftrightarrow> snd res = reported_width e \<and> sort_ok (snd res) (fst res)"

definition array_ok :: "nat \<Rightarrow> z3ast \<Rightarrow> bool" where
  "array_ok R t =
     (case Z3_get_sort t of
        None \<Rightarrow> True
      | Some (ArraySort d r) \<Rightarrow> r = BvSort R
      | Some _ \<Rightarrow> False)"

definition cache_ok :: "nat \<Rightarrow> Z3Builder \<Rightarrow> bool" where
  "cache_ok R s \<longleftrightarrow>
     list_all (\<lambda>entry. entry_ok (fst entry) (snd entry)) (constructed s)
     \<and> list_all (\<lambda>entry. array_ok R (snd entry)) (arr_array_hash s)
     \<and> list_all (\<lambda>entry. array_ok R (snd entry)) (arr_update_node_hash s)"

text \<open>
  What a step of the translation keeps: started on a builder with consistent caches, a run
  that returns gives a result that is right for \<open>e\<close> (for an array, for the kids of a
  concatenation) and leaves a builder with consistent caches.
\<close>

definition translates :: "nat \<Rightarrow> expr \<Rightarrow> (z3ast \<times> nat) build \<Rightarrow> bool" where
  "translates R e m \<longleftrightarrow>
     (\<forall>s res s'. cache_ok R s \<longrightarrow> m s = Inr (res, s') \<longrightarrow> entry_ok e res \<and> cache_ok R s')"

definition builds_array :: "nat \<Rightarrow> z3ast build \<Rightarrow> bool" where
  "builds_array R m \<longleftrightarrow>
     (\<forall>s a s'. cache_ok R s \<longrightarrow> m s = Inr (a, s') \<longrightarrow> array_ok R a \<and> cache_ok R s')"

definition translates_kids :: "nat \<Rightarrow> expr list \<Rightarrow> z3ast build \<Rightarrow> bool" where
  "translates_kids R kids m \<longleftrightarrow>
     (\<forall>s t s'. cache_ok R s \<longrightarrow> m s = Inr (t, s') \<longrightarrow>
        sort_ok (sum_list (map getWidth kids)) t \<and> cache_ok R s')"

definition keeps_cache :: "nat \<Rightarrow> 'a build \<Rightarrow> bool" where
  "keeps_cache R m \<longleftrightarrow> (\<forall>s x s'. cache_ok R s \<longrightarrow> m s = Inr (x, s') \<longrightarrow> cache_ok R s')"


section \<open>Verified properties\<close>

subsection \<open>Values of the constants\<close>

lemma eval_bv_numeral_nat: "eval_bv_numeral (int v) (BvSort w) = Some (VBv w (v mod 2 ^ w))"
  by (simp add: eval_bv_numeral_def nat_mod_distrib nat_power_eq)

lemma eval_bvConst64: "eval I (bvConst64 w v) = Some (VBv w ((v mod 2 ^ 64) mod 2 ^ w))"
  by (simp add: bvConst64_def getBvSort_def Z3_mk_bv_sort_def eval_bv_numeral_nat)

lemma eval_bvConst32: "eval I (bvConst32 w v) = Some (VBv w ((v mod 2 ^ 32) mod 2 ^ w))"
  by (simp add: bvConst32_def getBvSort_def Z3_mk_bv_sort_def eval_bv_numeral_nat)

lemma eval_concatExpr:
  "eval I a = Some (VBv n x) \<Longrightarrow> eval I b = Some (VBv m y) \<Longrightarrow>
   eval I (concatExpr a b) = Some (VBv (n + m) (x * 2 ^ m + y))"
  by (simp add: concatExpr_def eval_app2_def)

lemma eval_bvZExtConst_loop:
  "eval I expr = Some (VBv k 0) \<Longrightarrow> bvZExtConst_loop width (bvConst64 64 0) expr = (width', expr') \<Longrightarrow>
   eval I (concatExpr (bvConst64 width' 0) expr') = Some (VBv (width + k) 0)"
proof (induction width "bvConst64 64 0" expr arbitrary: k rule: bvZExtConst_loop.induct)
  case (1 width expr)
  show ?case
  proof (cases "width > 64")
    case True
    have e: "eval I (concatExpr (bvConst64 64 0) expr) = Some (VBv (64 + k) 0)"
      using eval_concatExpr [OF eval_bvConst64 "1.prems"(1), of 64 0] by simp
    have l: "bvZExtConst_loop (width - 64) (bvConst64 64 0) (concatExpr (bvConst64 64 0) expr) = (width', expr')"
      using "1.prems"(2) True by (subst (asm) bvZExtConst_loop.simps) simp
    have "width - 64 + (64 + k) = width + k" using True by simp
    then show ?thesis using "1.hyps" [OF True e l] by simp
  next
    case False
    then have "width' = width" "expr' = expr"
      using "1.prems"(2) by (subst (asm) bvZExtConst_loop.simps, simp)+
    then show ?thesis
      using eval_concatExpr [OF eval_bvConst64 "1.prems"(1), of width 0] by simp
  qed
qed

lemma eval_bvZero: "eval I (bvZero w) = Some (VBv w 0)"
proof (cases "w \<le> 64")
  case True
  then show ?thesis by (simp add: bvZero_def bvZExtConst_def eval_bvConst64)
next
  case False
  obtain w' e' where l: "bvZExtConst_loop (w - 64) (bvConst64 64 0) (bvConst64 64 0) = (w', e')"
    by (cases "bvZExtConst_loop (w - 64) (bvConst64 64 0) (bvConst64 64 0)")
  have "eval I (bvConst64 64 0) = Some (VBv 64 0)" by (simp add: eval_bvConst64)
  from eval_bvZExtConst_loop [OF this l] False l show ?thesis
    by (simp add: bvZero_def bvZExtConst_def)
qed

subsection \<open>Shifts by a constant\<close>



text \<open>
  Claim C10. For a bitvector term \<open>x\<close> of width \<open>w\<close> and an amount \<open>k \<ge> w\<close>,
  \<open>constructAShrByConstant\<close> returns \<open>bvZero w\<close>, the zero bitvector of width \<open>w\<close>, whatever
  the sign-bit term is (it is not sign-filled); for the amount 0 it returns \<open>x\<close> itself.
\<close>

theorem constructAShrByConstant_overshift:
  assumes "getBVLength x = Inr w" and "0 < w" and "w \<le> k"
  shows "constructAShrByConstant x k signBit = Inr (bvZero w)
     \<and> eval I (bvZero w) = Some (VBv w 0)
     \<and> constructAShrByConstant x 0 signBit = Inr x"
  using assms by (simp add: constructAShrByConstant_def bindE_def eval_bvZero)

theorem constructAShrByConstant_overshift_witness:
  "getBVLength (Z3_mk_const ''x'' (BvSort 8)) = Inr 8 \<and> (0::nat) < 8 \<and> (8::nat) \<le> 8
   \<and> constructAShrByConstant (Z3_mk_const ''x'' (BvSort 8)) 8 Z3_mk_true
        = Inr (Z3_mk_unsigned_int64 0 (BvSort 8))
   \<and> constructAShrByConstant (Z3_mk_const ''x'' (BvSort 8)) 0 Z3_mk_true
        = Inr (Z3_mk_const ''x'' (BvSort 8))"
proof -
  have g: "getBVLength (Z3_mk_const ''x'' (BvSort 8)) = Inr 8"
    by (simp add: getBVLength_def)
  show ?thesis
    using g constructAShrByConstant_overshift [OF g, of 8 Z3_mk_true]
    by (simp add: bvZero_def bvZExtConst_def bvConst64_def getBvSort_def Z3_mk_bv_sort_def)
qed

subsection \<open>Unfolding the builder\<close>

lemma construct_fold: "construct_with (constructActual e) e = construct e"
  by (simp add: construct_def)

lemmas build_defs = tick_def bindS_def returnS_def liftE_def failS_def bindE_def assertE_def

lemma construct_with_ConstantExpr: "construct_with actual (ConstantExpr w v) s = actual s"
  by (simp add: construct_with_def isa_ConstantExpr_def dyn_cast_ConstantExpr_def)

lemma construct_ConstantExpr:
  "construct (ConstantExpr w v) s =
     Inr (construct_Constant (w, v), s\<lparr>queryConstructs := queryConstructs s + 1\<rparr>)"
  by (simp add: construct_def construct_with_def isa_ConstantExpr_def dyn_cast_ConstantExpr_def
      tick_def returnS_def)

subsection \<open>\<^verbatim>\<open>FAbs\<close> at width 80\<close>

lemma occurs_size: "occurs u t \<Longrightarrow> size u \<le> size t"
  by (induction t) auto

lemma not_occurs_select_self: "\<not> occurs (readExpr x i) x"
proof
  assume "occurs (readExpr x i) x"
  then have "size (readExpr x i) \<le> size x" by (rule occurs_size)
  then show False by (simp add: readExpr_def)
qed

lemma bvOne_le_64: "w \<le> 64 \<Longrightarrow> bvOne w = Z3_mk_unsigned_int64 1 (BvSort w)"
  by (simp add: bvOne_def bvZExtConst_def bvConst64_def getBvSort_def Z3_mk_bv_sort_def)

lemma bvZero_le_64: "w \<le> 64 \<Longrightarrow> bvZero w = Z3_mk_unsigned_int64 0 (BvSort w)"
  by (simp add: bvZero_def bvZExtConst_def bvConst64_def getBvSort_def Z3_mk_bv_sort_def)

lemma eval_bvOne_le_64: "w \<le> 64 \<Longrightarrow> eval I (bvOne w) = Some (VBv w (1 mod 2 ^ w))"
  by (simp add: bvOne_def bvZExtConst_def eval_bvConst64)

text \<open>
  Claim C9. When the operand of an \<^verbatim>\<open>FAbs\<close> translates to the term \<open>x\<close> at width 80,
  the translation is \<open>store(x, 0, fp.abs(select(x, 0)))\<close>: under every interpretation that
  gives \<open>x\<close> an array value, index 1 of the result is index 1 of \<open>x\<close>, index 0 is the
  absolute value of the stored number, and \<open>select(x, 1)\<close> is no subterm of the result
  (the sentinel is not read).
\<close>

theorem FAbs_80_preserves_sentinel:
  assumes "tick (construct e) s = Inr ((x, 80), s')"
    and "eval I x = Some (VArr g)"
    and "t = writeExpr x (bvZero 1) (Z3_app1 Z3_mk_fpa_abs (readExpr x (bvZero 1)))"
  shows "constructActual (FUnaryExpr FAbs e) s = Inr ((t, 80), s')
     \<and> eval I (readExpr t (bvOne 1)) = eval I (readExpr x (bvOne 1))
     \<and> eval I (readExpr t (bvZero 1)) = eval I (Z3_app1 Z3_mk_fpa_abs (readExpr x (bvZero 1)))
     \<and> \<not> occurs (readExpr x (bvOne 1)) t"
proof -
  have a: "constructActual (FUnaryExpr FAbs e) s = Inr ((t, 80), s')"
    using assms(1,3)
    by (simp add: construct_fold build_defs construct_FUnary_def is_float_width_def)
  have b: "eval I (readExpr t (bvOne 1)) = eval I (readExpr x (bvOne 1))"
    using assms(2,3)
    by (simp add: readExpr_def writeExpr_def eval_app2_def eval_app3_def eval_app1_def
        eval_bvOne_le_64 eval_bvZero)
  have c: "eval I (readExpr t (bvZero 1)) = eval I (Z3_app1 Z3_mk_fpa_abs (readExpr x (bvZero 1)))"
    using assms(2,3)
    by (simp add: readExpr_def writeExpr_def eval_app2_def eval_app3_def eval_app1_def
        eval_bvOne_le_64 eval_bvZero)
  have d: "\<not> occurs (readExpr x (bvOne 1)) t"
    using not_occurs_select_self [of x "bvOne 1"] assms(3)
    by (simp add: readExpr_def writeExpr_def bvOne_le_64 bvZero_le_64)
  show ?thesis using a b c d by blast
qed


theorem FAbs_80_preserves_sentinel_witness:
  "result_of (constructActual (FUnaryExpr FAbs (FConstantExpr 80 0)) (new_Z3Builder False))
     = Inr (writeExpr
              (writeExpr (writeExpr f80_array (bvZero 1)
                 (Z3_app3 Z3_mk_fpa_fp (Z3_mk_unsigned_int 0 (BvSort 1))
                    (Z3_mk_unsigned_int 0 (BvSort 15)) (Z3_mk_unsigned_int 0 (BvSort 63))))
                 (bvOne 1) (fpZero f80_sort))
              (bvZero 1)
              (Z3_app1 Z3_mk_fpa_abs
                 (readExpr
                    (writeExpr (writeExpr f80_array (bvZero 1)
                       (Z3_app3 Z3_mk_fpa_fp (Z3_mk_unsigned_int 0 (BvSort 1))
                          (Z3_mk_unsigned_int 0 (BvSort 15)) (Z3_mk_unsigned_int 0 (BvSort 63))))
                       (bvOne 1) (fpZero f80_sort))
                    (bvZero 1))), 80)
   \<and> value_of (\<lambda>t. VArr (\<lambda>i. VFp (FpOther 0)))
        (Inr ((readExpr (fst (fst (projr
           (constructActual (FUnaryExpr FAbs (FConstantExpr 80 0)) (new_Z3Builder False))))) (bvOne 1), 1),
           new_Z3Builder False))
     = Some (VFp (FpZero False))"
proof -
  define conv where "conv = Z3_app3 Z3_mk_fpa_fp (Z3_mk_unsigned_int 0 (BvSort 1))
                    (Z3_mk_unsigned_int 0 (BvSort 15)) (Z3_mk_unsigned_int 0 (BvSort 63))"
  define x where "x = writeExpr (writeExpr f80_array (bvZero 1) conv) (bvOne 1) (fpZero f80_sort)"
  define I where "I = (\<lambda>t::z3ast. VArr (\<lambda>i. VFp (FpOther 0)))"
  define t where "t = writeExpr x (bvZero 1) (Z3_app1 Z3_mk_fpa_abs (readExpr x (bvZero 1)))"
  have h1: "tick (construct (FConstantExpr 80 0)) (new_Z3Builder False)
      = Inr ((x, 80), (new_Z3Builder False)\<lparr>queryConstructs := 2\<rparr>)"
    by (simp add: x_def conv_def construct_def construct_with_def new_Z3Builder_def build_defs
        construct_FConstant_def Let_def Z3_mk_bv_sort_def)
  have h2: "eval I x = Some (VArr (((\<lambda>i. VFp (FpOther 0))(0 := I conv))(1 := VFp (FpZero False))))"
    by (simp add: x_def conv_def writeExpr_def eval_app3_def f80_array_def eval_bvZero
        eval_bvOne_le_64 fpZero_def I_def)
  from FAbs_80_preserves_sentinel [OF h1 h2 t_def]
  have r: "constructActual (FUnaryExpr FAbs (FConstantExpr 80 0)) (new_Z3Builder False)
             = Inr ((t, 80), (new_Z3Builder False)\<lparr>queryConstructs := 2\<rparr>)"
    and v: "eval I (readExpr t (bvOne 1)) = eval I (readExpr x (bvOne 1))"
    by blast+
  have "eval I (readExpr x (bvOne 1)) = Some (VFp (FpZero False))"
    using h2 by (simp add: readExpr_def eval_app2_def eval_bvOne_le_64)
  with r v show ?thesis
    by (simp add: result_of_def value_of_def t_def x_def conv_def I_def)
qed

subsection \<open>\<^verbatim>\<open>UDiv\<close> and \<^verbatim>\<open>URem\<close> by a constant power of two\<close>

lemma indexOfSingleBit_power: "indexOfSingleBit (2 ^ k) = k"
proof (induction k)
  case 0
  show ?case by (subst indexOfSingleBit.simps) simp
next
  case (Suc k)
  have "(0::nat) < 2 ^ k" by simp
  then have "(1::nat) < 2 * 2 ^ k" by linarith
  then have "\<not> (2::nat) ^ Suc k \<le> 1" by simp
  then show ?case using Suc by (subst indexOfSingleBit.simps) simp
qed

lemma isPowerOfTwo_iff: "isPowerOfTwo x \<longleftrightarrow> (\<exists>k. x = 2 ^ k)"
proof
  assume "isPowerOfTwo x"
  then have "x = 2 ^ indexOfSingleBit x" by (simp add: isPowerOfTwo_def)
  then show "\<exists>k. x = 2 ^ k" ..
next
  assume "\<exists>k. x = 2 ^ k"
  then obtain k where "x = 2 ^ k" ..
  then show "isPowerOfTwo x" by (simp add: isPowerOfTwo_def indexOfSingleBit_power)
qed

lemma constant_power_of_two_Some:
  "cw \<le> 64 \<Longrightarrow> constant_power_of_two (ConstantExpr cw (2 ^ k)) = Some k"
  by (simp add: constant_power_of_two_def dyn_cast_ConstantExpr_def isPowerOfTwo_def
      indexOfSingleBit_power)

lemma constant_power_of_two_None:
  "(constant_power_of_two e = None) = (\<not> (\<exists>cw k. e = ConstantExpr cw (2 ^ k) \<and> cw \<le> 64))"
proof (cases "dyn_cast_ConstantExpr e")
  case None
  then have "\<And>cw v. e \<noteq> ConstantExpr cw v"
    by (auto simp: dyn_cast_ConstantExpr_def)
  with None show ?thesis by (simp add: constant_power_of_two_def)
next
  case (Some CE)
  then have e: "e = ConstantExpr (fst CE) (snd CE)"
    by (cases e) (auto simp: dyn_cast_ConstantExpr_def)
  show ?thesis
    using Some e by (auto simp: constant_power_of_two_def isPowerOfTwo_iff Let_def)
qed

lemma eval_lshr_term:
  assumes "eval I x = Some (VBv w v)" and "v < 2 ^ w" and "0 < k" and "k < w"
  shows "eval I (Z3_app2 Z3_mk_concat (bvZero k) (Z3_mk_extract (w - 1) k x)) = Some (VBv w (v div 2 ^ k))"
proof -
  have "w = k + (w - k)" using assms(4) by simp
  then have "(2::nat) ^ w = 2 ^ (k + (w - k))" by simp
  also have "\<dots> = 2 ^ (w - k) * 2 ^ k" by (simp add: power_add)
  finally have "v < 2 ^ (w - k) * 2 ^ k" using assms(2) by simp
  then have "v div 2 ^ k < 2 ^ (w - k)" by (rule less_mult_imp_div_less)
  moreover have "w - 1 - k + 1 = w - k" using assms(4) by simp
  ultimately show ?thesis
    using assms(1,3,4) by (simp add: eval_app2_def eval_bvZero)
qed

lemma eval_low_bits_term:
  assumes "eval I x = Some (VBv w v)" and "0 < k" and "k < w"
  shows "eval I (Z3_app2 Z3_mk_concat (bvZero (w - k)) (Z3_mk_extract (k - 1) 0 x)) = Some (VBv w (v mod 2 ^ k))"
  using assms by (simp add: eval_app2_def eval_bvZero)

text \<open>
  Claim C5. Let the dividend translate to the bitvector term \<open>left\<close> of width \<open>w\<close>. For
  the divisor \<open>ConstantExpr cw (2 ^ k)\<close> with \<open>cw \<le> 64\<close>, \<^verbatim>\<open>UDiv\<close> is the right shift of
  \<open>left\<close> by \<open>k\<close> (\<open>left\<close> itself for \<open>k = 0\<close>, else the Z3 term
  \<open>concat(zero_k, extract(left, w-1, k))\<close>) and \<^verbatim>\<open>URem\<close> is the Z3 term
  \<open>concat(zero_(w-k), extract(left, k-1, 0))\<close>, or \<open>bvZero w\<close> for the divisor 1; no
  \<^verbatim>\<open>bvudiv\<close> or \<^verbatim>\<open>bvurem\<close> is built. Under every interpretation that gives \<open>left\<close> the
  value \<open>x\<close> of width \<open>w\<close>, the first term has the value \<open>x div 2 ^ k\<close>, the second the
  value \<open>x mod 2 ^ k\<close>, and \<^verbatim>\<open>URem\<close> by 1 the value zero, all of width \<open>w\<close>. For every other
  divisor \<open>r\<close> (one that is not a constant power of two of at most 64 bits) the native
  \<^verbatim>\<open>bvudiv\<close> and \<^verbatim>\<open>bvurem\<close> of the two translations are built.
\<close>

theorem UDiv_URem_power_of_two:
  assumes "tick (construct l) s = Inr ((left, w), s1)" and "w \<noteq> 1"
    and "Z3_get_sort left = Some (BvSort w)"
    and "cw \<le> 64" and "k < w"
    and "constant_power_of_two r = None"
    and "construct r s1 = Inr ((right, w), s2)" and "Z3_get_sort right = Some (BvSort w)"
  shows "constructActual (BinaryExpr UDiv l (ConstantExpr cw (2 ^ k))) s
           = Inr ((if k = 0 then left
                   else Z3_app2 Z3_mk_concat (bvZero k) (Z3_mk_extract (w - 1) k left), w), s1)
     \<and> constructActual (BinaryExpr URem l (ConstantExpr cw (2 ^ k))) s
           = Inr ((if k = 0 then bvZero w
                   else Z3_app2 Z3_mk_concat (bvZero (w - k)) (Z3_mk_extract (k - 1) 0 left), w), s1)
     \<and> constructActual (BinaryExpr URem l (ConstantExpr cw 1)) s = Inr ((bvZero w, w), s1)
     \<and> (\<forall>I x. eval I left = Some (VBv w x) \<and> x < 2 ^ w \<longrightarrow>
           value_of I (constructActual (BinaryExpr UDiv l (ConstantExpr cw (2 ^ k))) s)
             = Some (VBv w (x div 2 ^ k))
         \<and> value_of I (constructActual (BinaryExpr URem l (ConstantExpr cw (2 ^ k))) s)
             = Some (VBv w (x mod 2 ^ k))
         \<and> value_of I (constructActual (BinaryExpr URem l (ConstantExpr cw 1)) s)
             = Some (VBv w 0))
     \<and> constructActual (BinaryExpr UDiv l r) s = Inr ((Z3_app2 Z3_mk_bvudiv left right, w), s2)
     \<and> constructActual (BinaryExpr URem l r) s = Inr ((Z3_app2 Z3_mk_bvurem left right, w), s2)
     \<and> (constant_power_of_two r = None)
         = (\<not> (\<exists>cw' k'. r = ConstantExpr cw' (2 ^ k') \<and> cw' \<le> 64))"
proof -
  have g: "getBVLength left = Inr w" using assms(3) by (simp add: getBVLength_def)
  have u: "usub w k = w - k" using assms(5) by (simp add: usub_def)
  have a: "constructActual (BinaryExpr UDiv l (ConstantExpr cw (2 ^ k))) s
           = Inr ((if k = 0 then left
                   else Z3_app2 Z3_mk_concat (bvZero k) (Z3_mk_extract (w - 1) k left), w), s1)"
    using assms(1,2,5) g
    by (simp add: construct_fold build_defs constant_power_of_two_Some [OF assms(4)] bvRightShift_def
        concatExpr_def bvExtract_def)
  have b: "constructActual (BinaryExpr URem l (ConstantExpr cw (2 ^ k))) s
           = Inr ((if k = 0 then bvZero w
                   else Z3_app2 Z3_mk_concat (bvZero (w - k)) (Z3_mk_extract (k - 1) 0 left), w), s1)"
    using assms(1,2) u
    by (simp add: construct_fold build_defs constant_power_of_two_Some [OF assms(4)]
        concatExpr_def bvExtract_def)
  have c: "constructActual (BinaryExpr URem l (ConstantExpr cw 1)) s = Inr ((bvZero w, w), s1)"
    using assms(1,2) constant_power_of_two_Some [OF assms(4), of 0]
    by (simp add: construct_fold build_defs)
  have d: "constructActual (BinaryExpr UDiv l r) s = Inr ((Z3_app2 Z3_mk_bvudiv left right, w), s2)"
    using assms(1,2,3,6,7,8)
    by (simp add: construct_fold build_defs checked_result_def getBVLength_def sort_app2_def
        is_bv_arith_def is_bv_sort_def)
  have e: "constructActual (BinaryExpr URem l r) s = Inr ((Z3_app2 Z3_mk_bvurem left right, w), s2)"
    using assms(1,2,3,6,7,8)
    by (simp add: construct_fold build_defs checked_result_def getBVLength_def sort_app2_def
        is_bv_arith_def is_bv_sort_def)
  have v: "\<forall>I x. eval I left = Some (VBv w x) \<and> x < 2 ^ w \<longrightarrow>
           value_of I (constructActual (BinaryExpr UDiv l (ConstantExpr cw (2 ^ k))) s)
             = Some (VBv w (x div 2 ^ k))
         \<and> value_of I (constructActual (BinaryExpr URem l (ConstantExpr cw (2 ^ k))) s)
             = Some (VBv w (x mod 2 ^ k))
         \<and> value_of I (constructActual (BinaryExpr URem l (ConstantExpr cw 1)) s)
             = Some (VBv w 0)"
  proof (intro allI impI, elim conjE)
    fix I x
    assume x: "eval I left = Some (VBv w x)" and lt: "x < 2 ^ w"
    show "value_of I (constructActual (BinaryExpr UDiv l (ConstantExpr cw (2 ^ k))) s)
             = Some (VBv w (x div 2 ^ k))
         \<and> value_of I (constructActual (BinaryExpr URem l (ConstantExpr cw (2 ^ k))) s)
             = Some (VBv w (x mod 2 ^ k))
         \<and> value_of I (constructActual (BinaryExpr URem l (ConstantExpr cw 1)) s)
             = Some (VBv w 0)"
    proof (cases "k = 0")
      case True
      then show ?thesis unfolding a b c using x by (simp add: value_of_def eval_bvZero)
    next
      case False
      then have k: "0 < k" by simp
      show ?thesis unfolding a b c
        using False eval_lshr_term [OF x lt k assms(5)] eval_low_bits_term [OF x k assms(5)]
        by (simp add: value_of_def eval_bvZero)
    qed
  qed
  show ?thesis using a b c d e v constant_power_of_two_None [of r] by blast
qed


lemma not_isPowerOfTwo_3: "\<not> isPowerOfTwo 3"
proof -
  have "indexOfSingleBit 3 = Suc (indexOfSingleBit 1)"
    by (subst indexOfSingleBit.simps) simp
  also have "indexOfSingleBit 1 = 0"
    by (subst indexOfSingleBit.simps) simp
  finally show ?thesis by (simp add: isPowerOfTwo_def)
qed

theorem UDiv_URem_power_of_two_witness:
  "result_of (constructActual (BinaryExpr UDiv (ConstantExpr 32 100) (ConstantExpr 32 8)) (new_Z3Builder True))
     = Inr (Z3_app2 Z3_mk_concat (Z3_mk_unsigned_int64 0 (BvSort 3))
              (Z3_mk_extract 31 3 (Z3_mk_unsigned_int 100 (BvSort 32))), 32)
   \<and> result_of (constructActual (BinaryExpr URem (ConstantExpr 32 100) (ConstantExpr 32 8)) (new_Z3Builder True))
     = Inr (Z3_app2 Z3_mk_concat (Z3_mk_unsigned_int64 0 (BvSort 29))
              (Z3_mk_extract 2 0 (Z3_mk_unsigned_int 100 (BvSort 32))), 32)
   \<and> value_of (\<lambda>t. VBool False)
        (constructActual (BinaryExpr UDiv (ConstantExpr 32 100) (ConstantExpr 32 8)) (new_Z3Builder True))
     = Some (VBv 32 12)
   \<and> value_of (\<lambda>t. VBool False)
        (constructActual (BinaryExpr URem (ConstantExpr 32 100) (ConstantExpr 32 8)) (new_Z3Builder True))
     = Some (VBv 32 4)
   \<and> result_of (constructActual (BinaryExpr UDiv (ConstantExpr 32 100) (ConstantExpr 32 3)) (new_Z3Builder True))
     = Inr (Z3_app2 Z3_mk_bvudiv (Z3_mk_unsigned_int 100 (BvSort 32)) (Z3_mk_unsigned_int 3 (BvSort 32)), 32)"
proof -
  define s where "s = new_Z3Builder True"
  define left where "left = Z3_mk_unsigned_int 100 (BvSort 32)"
  define right where "right = Z3_mk_unsigned_int 3 (BvSort 32)"
  define I where "I = (\<lambda>t::z3ast. VBool False)"
  have h1: "tick (construct (ConstantExpr 32 100)) s = Inr ((left, 32), s\<lparr>queryConstructs := 2\<rparr>)"
    by (simp add: s_def left_def construct_ConstantExpr tick_def construct_Constant_def new_Z3Builder_def
        bvConst32_def getBvSort_def Z3_mk_bv_sort_def)
  have h2: "(32::nat) \<noteq> 1" by simp
  have h3: "Z3_get_sort left = Some (BvSort 32)" by (simp add: left_def is_bv_sort_def)
  have h4: "(32::nat) \<le> 64" by simp
  have h5: "(3::nat) < 32" by simp
  have h6: "constant_power_of_two (ConstantExpr 32 3) = None"
    by (simp add: constant_power_of_two_def dyn_cast_ConstantExpr_def not_isPowerOfTwo_3)
  have h7: "construct (ConstantExpr 32 3) (s\<lparr>queryConstructs := 2\<rparr>)
      = Inr ((right, 32), s\<lparr>queryConstructs := 3\<rparr>)"
    by (simp add: s_def right_def construct_ConstantExpr construct_Constant_def new_Z3Builder_def
        bvConst32_def getBvSort_def Z3_mk_bv_sort_def)
  have h8: "Z3_get_sort right = Some (BvSort 32)" by (simp add: right_def is_bv_sort_def)
  have x: "eval I left = Some (VBv 32 100) \<and> (100::nat) < 2 ^ 32"
    by (simp add: left_def eval_bv_numeral_def)
  note t = UDiv_URem_power_of_two [OF h1 h2 h3 h4 h5 h6 h7 h8]
  from t have a: "constructActual (BinaryExpr UDiv (ConstantExpr 32 100) (ConstantExpr 32 (2 ^ 3))) s
           = Inr ((if (3::nat) = 0 then left
                   else Z3_app2 Z3_mk_concat (bvZero 3) (Z3_mk_extract (32 - 1) 3 left), 32),
                  s\<lparr>queryConstructs := 2\<rparr>)"
    and b: "constructActual (BinaryExpr URem (ConstantExpr 32 100) (ConstantExpr 32 (2 ^ 3))) s
           = Inr ((if (3::nat) = 0 then bvZero 32
                   else Z3_app2 Z3_mk_concat (bvZero (32 - 3)) (Z3_mk_extract (3 - 1) 0 left), 32),
                  s\<lparr>queryConstructs := 2\<rparr>)"
    and d: "constructActual (BinaryExpr UDiv (ConstantExpr 32 100) (ConstantExpr 32 3)) s
           = Inr ((Z3_app2 Z3_mk_bvudiv left right, 32), s\<lparr>queryConstructs := 3\<rparr>)"
    by blast+
  from t have "\<forall>I x. eval I left = Some (VBv 32 x) \<and> x < 2 ^ 32 \<longrightarrow>
           value_of I (constructActual (BinaryExpr UDiv (ConstantExpr 32 100) (ConstantExpr 32 (2 ^ 3))) s)
             = Some (VBv 32 (x div 2 ^ 3))
         \<and> value_of I (constructActual (BinaryExpr URem (ConstantExpr 32 100) (ConstantExpr 32 (2 ^ 3))) s)
             = Some (VBv 32 (x mod 2 ^ 3))
         \<and> value_of I (constructActual (BinaryExpr URem (ConstantExpr 32 100) (ConstantExpr 32 1)) s)
             = Some (VBv 32 0)"
    by blast
  with x have v1: "value_of I (constructActual (BinaryExpr UDiv (ConstantExpr 32 100) (ConstantExpr 32 (2 ^ 3))) s)
             = Some (VBv 32 (100 div 2 ^ 3))"
    and v2: "value_of I (constructActual (BinaryExpr URem (ConstantExpr 32 100) (ConstantExpr 32 (2 ^ 3))) s)
             = Some (VBv 32 (100 mod 2 ^ 3))"
    by blast+
  have r1: "result_of (constructActual (BinaryExpr UDiv (ConstantExpr 32 100) (ConstantExpr 32 8)) s)
     = Inr (Z3_app2 Z3_mk_concat (Z3_mk_unsigned_int64 0 (BvSort 3))
              (Z3_mk_extract 31 3 (Z3_mk_unsigned_int 100 (BvSort 32))), 32)"
    using a by (simp add: result_of_def left_def bvZero_le_64)
  have r2: "result_of (constructActual (BinaryExpr URem (ConstantExpr 32 100) (ConstantExpr 32 8)) s)
     = Inr (Z3_app2 Z3_mk_concat (Z3_mk_unsigned_int64 0 (BvSort 29))
              (Z3_mk_extract 2 0 (Z3_mk_unsigned_int 100 (BvSort 32))), 32)"
    using b by (simp add: result_of_def left_def bvZero_le_64)
  have r3: "value_of I (constructActual (BinaryExpr UDiv (ConstantExpr 32 100) (ConstantExpr 32 8)) s)
     = Some (VBv 32 12)"
    using v1 by simp
  have r4: "value_of I (constructActual (BinaryExpr URem (ConstantExpr 32 100) (ConstantExpr 32 8)) s)
     = Some (VBv 32 4)"
    using v2 by simp
  have r5: "result_of (constructActual (BinaryExpr UDiv (ConstantExpr 32 100) (ConstantExpr 32 3)) s)
     = Inr (Z3_app2 Z3_mk_bvudiv (Z3_mk_unsigned_int 100 (BvSort 32)) (Z3_mk_unsigned_int 3 (BvSort 32)), 32)"
    using d by (simp add: result_of_def left_def right_def)
  show ?thesis using r1 r2 r3 r4 r5 unfolding s_def I_def by blast
qed

subsection \<open>Shifts by a variable amount\<close>




























subsection \<open>\<^verbatim>\<open>SToF\<close> to width 80\<close>

text \<open>
  Claim C2 says that an \<^verbatim>\<open>SToF\<close> to width 80 converts its source as a signed integer.
  The builder converts it with \<^verbatim>\<open>Z3_mk_fpa_to_fp_unsigned\<close>, as the \<^verbatim>\<open>UToF\<close> case
  above it does, while every other width of \<^verbatim>\<open>SToF\<close> uses \<^verbatim>\<open>Z3_mk_fpa_to_fp_signed\<close>:
  the 32-bit constant \<open>-1\<close> is converted as \<open>4294967295\<close>.
\<close>

theorem SToF_80_converts_unsigned:
  "result_of (construct (FCastRoundExpr SToF (ConstantExpr 32 4294967295) 80 rmNearestTiesToEven)
       (new_Z3Builder True))
   = Inr (writeExpr
            (writeExpr f80_array (bvZero 1)
               (Z3_mk_fpa_to_fp_unsigned Z3_mk_fpa_round_nearest_ties_to_even
                  (Z3_mk_unsigned_int 4294967295 (BvSort 32)) (FpaSort 15 64)))
            (bvOne 1) (fpZero f80_sort), 80)"
  by (simp add: construct_def construct_with_def new_Z3Builder_def isa_ConstantExpr_def
      dyn_cast_ConstantExpr_def build_defs construct_Constant_def construct_FCastRound_def
      f80_pack_def hash_insert_def isTrue_def bvConst32_def bvConst64_def getBvSort_def
      Z3_mk_bv_sort_def getRoundingModeAST_def f80_sort_def Z3_mk_fpa_sort_def Let_def result_of_def)

subsection \<open>\<^verbatim>\<open>Eq\<close>\<close>

text \<open>
  Claim C4 says that a width-1 \<^verbatim>\<open>Eq\<close> with a constant on either side is the other side
  or its negation. The builder tests the left operand only: \<open>Eq(x, true)\<close> with a
  comparison \<open>x\<close> on the left is \<open>iff(x', true)\<close> and not the translation \<open>x'\<close> of \<open>x\<close>.
\<close>

theorem Eq_constant_on_the_right_counterexample:
  "result_of (construct (CmpExpr Eq (CmpExpr Ult (ConstantExpr 8 1) (ConstantExpr 8 2)) (ConstantExpr 1 1))
       (new_Z3Builder True))
   = Inr (Z3_app2 Z3_mk_iff
            (Z3_app2 Z3_mk_bvult (Z3_mk_unsigned_int 1 (BvSort 8)) (Z3_mk_unsigned_int 2 (BvSort 8)))
            Z3_mk_true, 1)
   \<and> result_of (construct (CmpExpr Ult (ConstantExpr 8 1) (ConstantExpr 8 2)) (new_Z3Builder True))
   = Inr (Z3_app2 Z3_mk_bvult (Z3_mk_unsigned_int 1 (BvSort 8)) (Z3_mk_unsigned_int 2 (BvSort 8)), 1)
   \<and> result_of (construct (CmpExpr Eq (CmpExpr Ult (ConstantExpr 8 1) (ConstantExpr 8 2)) (ConstantExpr 1 1))
       (new_Z3Builder True))
     \<noteq> result_of (construct (CmpExpr Ult (ConstantExpr 8 1) (ConstantExpr 8 2)) (new_Z3Builder True))"
  by (simp add: construct_def construct_with_def new_Z3Builder_def isa_ConstantExpr_def
      dyn_cast_ConstantExpr_def build_defs construct_Constant_def construct_Cmp_def unhandled_Cmp_def
      hash_insert_def isTrue_def bvConst32_def bvConst64_def getBvSort_def getTrue_def getFalse_def
      Z3_mk_bv_sort_def iffExpr_def bvLtExpr_def sort_app2_def is_bv_cmp_def is_bv_arith_def is_bv_sort_def
      Z3_get_sort_kind_def Let_def result_of_def)

text \<open>
  Claim C4, amended. For an \<^verbatim>\<open>Eq\<close> whose right operand has width 1: if the left operand
  is the constant true, the translation is the translation \<open>right\<close> of the right operand; if
  it is the constant false, it is the Z3 term \<open>not right\<close>; if the left operand is no
  constant (whether the right one is a constant or not) and both translations are Boolean,
  it is the Z3 term \<open>iff left right'\<close>. For a right operand of another width it is the Z3
  equality \<open>left'' = right''\<close> of the two translations, and the width is 1.
\<close>

theorem Eq_lowering:
  assumes "tick (tick (construct r)) s = Inr ((right, 1), s2)"
    and "tick (construct l) s = Inr ((left, w1), s1)"
    and "dyn_cast_ConstantExpr l = None"
    and "construct r' s1 = Inr ((right', 1), s3)"
    and "Z3_get_sort left = Some BoolSort" and "Z3_get_sort right' = Some BoolSort"
    and "tick (construct l'') s = Inr ((left'', w1''), s1'')"
    and "construct r'' s1'' = Inr ((right'', w), s4)" and "w \<noteq> 1"
  shows "constructActual (CmpExpr Eq (ConstantExpr 1 1) r) s = Inr ((right, 1), s2)
     \<and> constructActual (CmpExpr Eq (ConstantExpr 1 0) r) s = Inr ((Z3_app1 Z3_mk_not right, 1), s2)
     \<and> constructActual (CmpExpr Eq l r') s = Inr ((Z3_app2 Z3_mk_iff left right', 1), s3)
     \<and> constructActual (CmpExpr Eq l'' r'') s = Inr ((Z3_app2 Z3_mk_eq left'' right'', 1), s4)"
proof -
  have a: "constructActual (CmpExpr Eq (ConstantExpr 1 1) r) s = Inr ((right, 1), s2)"
    using assms(1)
    by (simp add: construct_fold construct_with_ConstantExpr build_defs unhandled_Cmp_def
        construct_Cmp_def dyn_cast_ConstantExpr_def isTrue_def construct_Constant_def Let_def)
  have b: "constructActual (CmpExpr Eq (ConstantExpr 1 0) r) s = Inr ((Z3_app1 Z3_mk_not right, 1), s2)"
    using assms(1)
    by (simp add: construct_fold construct_with_ConstantExpr build_defs unhandled_Cmp_def
        construct_Cmp_def dyn_cast_ConstantExpr_def isTrue_def construct_Constant_def Let_def
        notExpr_def)
  have c: "constructActual (CmpExpr Eq l r') s = Inr ((Z3_app2 Z3_mk_iff left right', 1), s3)"
    using assms(2-6)
    by (simp add: construct_fold build_defs unhandled_Cmp_def construct_Cmp_def iffExpr_def
        Z3_get_sort_kind_def)
  have d: "constructActual (CmpExpr Eq l'' r'') s = Inr ((Z3_app2 Z3_mk_eq left'' right'', 1), s4)"
    using assms(7,8,9)
    by (simp add: construct_fold build_defs unhandled_Cmp_def construct_Cmp_def eqExpr_def)
  show ?thesis using a b c d by blast
qed

theorem Eq_lowering_witness:
  "result_of (constructActual (CmpExpr Eq (ConstantExpr 1 1) (CmpExpr Ult (ConstantExpr 8 1) (ConstantExpr 8 2)))
      (new_Z3Builder False))
     = Inr (Z3_app2 Z3_mk_bvult (Z3_mk_unsigned_int 1 (BvSort 8)) (Z3_mk_unsigned_int 2 (BvSort 8)), 1)
   \<and> result_of (constructActual (CmpExpr Eq (ConstantExpr 1 0) (CmpExpr Ult (ConstantExpr 8 1) (ConstantExpr 8 2)))
      (new_Z3Builder False))
     = Inr (Z3_app1 Z3_mk_not
              (Z3_app2 Z3_mk_bvult (Z3_mk_unsigned_int 1 (BvSort 8)) (Z3_mk_unsigned_int 2 (BvSort 8))), 1)
   \<and> result_of (constructActual (CmpExpr Eq (CmpExpr Ult (ConstantExpr 8 1) (ConstantExpr 8 2)) (ConstantExpr 1 1))
      (new_Z3Builder False))
     = Inr (Z3_app2 Z3_mk_iff
              (Z3_app2 Z3_mk_bvult (Z3_mk_unsigned_int 1 (BvSort 8)) (Z3_mk_unsigned_int 2 (BvSort 8)))
              Z3_mk_true, 1)
   \<and> result_of (constructActual (CmpExpr Eq (ConstantExpr 8 1) (ConstantExpr 8 2)) (new_Z3Builder False))
     = Inr (Z3_app2 Z3_mk_eq (Z3_mk_unsigned_int 1 (BvSort 8)) (Z3_mk_unsigned_int 2 (BvSort 8)), 1)"
proof -
  define s where "s = new_Z3Builder False"
  define x where "x = CmpExpr Ult (ConstantExpr 8 1) (ConstantExpr 8 2)"
  define x' where "x' = Z3_app2 Z3_mk_bvult (Z3_mk_unsigned_int 1 (BvSort 8)) (Z3_mk_unsigned_int 2 (BvSort 8))"
  have h1: "tick (tick (construct x)) s = Inr ((x', 1), s\<lparr>queryConstructs := 5\<rparr>)"
    by (simp add: s_def x_def x'_def construct_def construct_with_def new_Z3Builder_def
        isa_ConstantExpr_def dyn_cast_ConstantExpr_def build_defs construct_Constant_def
        construct_Cmp_def unhandled_Cmp_def bvConst32_def getBvSort_def Z3_mk_bv_sort_def
        bvLtExpr_def Let_def)
  have h2: "tick (construct x) s = Inr ((x', 1), s\<lparr>queryConstructs := 4\<rparr>)"
    by (simp add: s_def x_def x'_def construct_def construct_with_def new_Z3Builder_def
        isa_ConstantExpr_def dyn_cast_ConstantExpr_def build_defs construct_Constant_def
        construct_Cmp_def unhandled_Cmp_def bvConst32_def getBvSort_def Z3_mk_bv_sort_def
        bvLtExpr_def Let_def)
  have h3: "dyn_cast_ConstantExpr x = None" by (simp add: x_def dyn_cast_ConstantExpr_def)
  have h4: "construct (ConstantExpr 1 1) (s\<lparr>queryConstructs := 4\<rparr>)
      = Inr ((Z3_mk_true, 1), s\<lparr>queryConstructs := 5\<rparr>)"
    by (simp add: s_def construct_ConstantExpr construct_Constant_def isTrue_def getTrue_def
        new_Z3Builder_def)
  have h5: "Z3_get_sort x' = Some BoolSort"
    by (simp add: x'_def sort_app2_def is_bv_sort_def is_bv_cmp_def is_bv_arith_def)
  have h6: "Z3_get_sort Z3_mk_true = Some BoolSort" by simp
  have h7: "tick (construct (ConstantExpr 8 1)) s
      = Inr ((Z3_mk_unsigned_int 1 (BvSort 8), 8), s\<lparr>queryConstructs := 2\<rparr>)"
    by (simp add: s_def construct_ConstantExpr construct_Constant_def tick_def
        new_Z3Builder_def bvConst32_def getBvSort_def Z3_mk_bv_sort_def)
  have h8: "construct (ConstantExpr 8 2) (s\<lparr>queryConstructs := 2\<rparr>)
      = Inr ((Z3_mk_unsigned_int 2 (BvSort 8), 8), s\<lparr>queryConstructs := 3\<rparr>)"
    by (simp add: s_def construct_ConstantExpr construct_Constant_def
        new_Z3Builder_def bvConst32_def getBvSort_def Z3_mk_bv_sort_def)
  have h9: "(8::nat) \<noteq> 1" by simp
  from Eq_lowering [OF h1 h2 h3 h4 h5 h6 h7 h8 h9]
  show ?thesis
    by (simp add: result_of_def s_def x_def x'_def)
qed


subsection \<open>Integer constants\<close>

lemma div_2_64_less:
  assumes "tv < 2 ^ tw" and "64 < tw"
  shows "tv div 2 ^ 64 < (2::nat) ^ (tw - 64)"
proof -
  have "tw = (tw - 64) + 64" using assms(2) by simp
  then have "(2::nat) ^ tw = 2 ^ ((tw - 64) + 64)" by simp
  also have "\<dots> = 2 ^ (tw - 64) * 2 ^ 64" by (rule power_add)
  finally have "tv < 2 ^ (tw - 64) * 2 ^ 64" using assms(1) by simp
  then show ?thesis by (rule less_mult_imp_div_less)
qed

lemma Constant_loop_chunks:
  "snd Tmp < 2 ^ fst Tmp \<Longrightarrow>
   Constant_loop Tmp Res =
     (if fst Tmp > 64
        then foldl (\<lambda>res c. concatExpr (bvConst64 (fst c) (snd c)) res) Res
               (constant_chunks (fst Tmp - 64) (snd Tmp div 2 ^ 64))
      else Res)"
proof (induction Tmp Res rule: Constant_loop.induct)
  case (1 Tmp Res)
  show ?case
  proof (cases "fst Tmp > 64")
    case False
    then show ?thesis by (subst Constant_loop.simps) simp
  next
    case True
    define tw' where "tw' = fst Tmp - 64"
    define tv' where "tv' = snd Tmp div 2 ^ 64"
    have lt: "tv' < 2 ^ tw'"
      unfolding tv'_def tw'_def using "1.prems" True by (rule div_2_64_less)
    have T': "Extract_const Tmp 64 (fst Tmp - 64) = (tw', tv')"
      using lt by (simp add: Extract_const_def tw'_def tv'_def)
    define Res' where
      "Res' = concatExpr (bvConst64 (min 64 tw') (snd (Extract_const (tw', tv') 0 (min 64 tw')))) Res"
    have step: "Constant_loop Tmp Res = Constant_loop (tw', tv') Res'"
      using True by (subst Constant_loop.simps) (simp add: T' Res'_def Let_def)
    have IH: "Constant_loop (tw', tv') Res' =
        (if tw' > 64
           then foldl (\<lambda>res c. concatExpr (bvConst64 (fst c) (snd c)) res) Res'
                  (constant_chunks (tw' - 64) (tv' div 2 ^ 64))
         else Res')"
      using "1.IH" [OF True T' [symmetric] refl] lt by (simp add: Res'_def T')
    show ?thesis
    proof (cases "tw' > 64")
      case True
      then have "Res' = concatExpr (bvConst64 64 (tv' mod 2 ^ 64)) Res"
        by (simp add: Res'_def Extract_const_def)
      then show ?thesis
        using True \<open>64 < fst Tmp\<close> step IH
        by (subst constant_chunks.simps) (simp add: tw'_def tv'_def)
    next
      case False
      then have "min 64 tw' = tw'" by simp
      then have "Res' = concatExpr (bvConst64 tw' tv') Res"
        using lt by (simp add: Res'_def Extract_const_def)
      then show ?thesis
        using False \<open>64 < fst Tmp\<close> step IH
        by (subst constant_chunks.simps) (simp add: tw'_def tv'_def)
    qed
  qed
qed

lemma eval_foldl_chunks:
  "eval I Res = Some (VBv a x) \<Longrightarrow> tv < 2 ^ tw \<Longrightarrow>
   eval I (foldl (\<lambda>res c. concatExpr (bvConst64 (fst c) (snd c)) res) Res (constant_chunks tw tv))
     = Some (VBv (tw + a) (tv * 2 ^ a + x))"
proof (induction tw tv arbitrary: Res a x rule: constant_chunks.induct)
  case (1 w v)
  show ?case
  proof (cases "w \<le> 64")
    case True
    have "(2::nat) ^ w \<le> 2 ^ 64" using True by (intro power_increasing) simp_all
    then have "v < 2 ^ 64" using "1.prems"(2) by simp
    then have "eval I (bvConst64 w v) = Some (VBv w v)"
      using "1.prems"(2) by (simp add: eval_bvConst64)
    then show ?thesis
      using True "1.prems"(1)
      by (subst constant_chunks.simps) (simp add: eval_concatExpr)
  next
    case False
    have c: "eval I (bvConst64 64 (v mod 2 ^ 64)) = Some (VBv 64 (v mod 2 ^ 64))"
      by (simp add: eval_bvConst64)
    have r: "eval I (concatExpr (bvConst64 64 (v mod 2 ^ 64)) Res)
        = Some (VBv (64 + a) ((v mod 2 ^ 64) * 2 ^ a + x))"
      using eval_concatExpr [OF c "1.prems"(1)] .
    have lt: "v div 2 ^ 64 < 2 ^ (w - 64)"
      using "1.prems"(2) False by (intro div_2_64_less) simp_all
    have g: "q * (m * k) + (r * k + x) = (q * m + r) * k + x" for q m k r :: nat
      by (simp add: algebra_simps)
    have "v div 2 ^ 64 * 2 ^ (64 + a) + (v mod 2 ^ 64 * 2 ^ a + x)
        = v div 2 ^ 64 * (2 ^ 64 * 2 ^ a) + (v mod 2 ^ 64 * 2 ^ a + x)"
      by (simp only: power_add)
    also have "\<dots> = (v div 2 ^ 64 * 2 ^ 64 + v mod 2 ^ 64) * 2 ^ a + x"
      by (rule g)
    also have "\<dots> = v * 2 ^ a + x"
      by (simp only: div_mult_mod_eq)
    finally have e: "v div 2 ^ 64 * 2 ^ (64 + a) + (v mod 2 ^ 64 * 2 ^ a + x) = v * 2 ^ a + x" .
    have w: "w - 64 + (64 + a) = w + a" using False by simp
    show ?thesis
      using False "1.IH" [OF False r lt] e w
      by (subst constant_chunks.simps) simp
  qed
qed

text \<open>
  Claim C7, amended. For a \<^verbatim>\<open>ConstantExpr\<close> of width \<open>w\<close> and value \<open>v\<close>: width 1 gives
  the Boolean literal of the value; a width up to 32 gives the numeral \<open>v\<close> of the
  bitvector sort of width \<open>w\<close> (not 32), built by \<^verbatim>\<open>Z3_mk_unsigned_int\<close>; a width up to 64
  the numeral of width \<open>w\<close> built by \<^verbatim>\<open>Z3_mk_unsigned_int64\<close>; a wider constant is the
  concatenation of its 64-bit chunks from the low end, the last chunk of the remaining
  width. In every case but width 1 the value of the term is the bitvector \<open>v\<close> of width \<open>w\<close>.
\<close>

theorem Constant_lowering:
  assumes "v < 2 ^ w"
  shows "result_of (constructActual (ConstantExpr w v) s) =
           Inr (if w = 1 then (if v = 1 then Z3_mk_true else Z3_mk_false)
                else if w \<le> 32 then Z3_mk_unsigned_int v (BvSort w)
                else if w \<le> 64 then Z3_mk_unsigned_int64 v (BvSort w)
                else concat_chunks (constant_chunks w v), w)
     \<and> value_of I (constructActual (ConstantExpr w v) s)
           = Some (if w = 1 then VBool (v = 1) else VBv w v)"
proof -
  consider (one) "w = 1" | (small) "w \<noteq> 1" "w \<le> 32" | (mid) "32 < w" "w \<le> 64" | (wide) "64 < w"
    by linarith
  then show ?thesis
  proof cases
    case one
    then have "v = 0 \<or> v = 1" using assms by auto
    then show ?thesis
      using one
      by (auto simp: result_of_def value_of_def build_defs construct_Constant_def isTrue_def
          getTrue_def getFalse_def)
  next
    case small
    have "(2::nat) ^ w \<le> 2 ^ 32" using small(2) by (intro power_increasing) simp_all
    then have "v < 2 ^ 32" using assms by simp
    then show ?thesis
      using small assms
      by (simp add: result_of_def value_of_def build_defs construct_Constant_def bvConst32_def
          getBvSort_def Z3_mk_bv_sort_def eval_bv_numeral_nat)
  next
    case mid
    have "(2::nat) ^ w \<le> 2 ^ 64" using mid(2) by (intro power_increasing) simp_all
    then have "v < 2 ^ 64" using assms by simp
    then show ?thesis
      using mid assms
      by (simp add: result_of_def value_of_def build_defs construct_Constant_def bvConst64_def
          getBvSort_def Z3_mk_bv_sort_def eval_bv_numeral_nat)
  next
    case wide
    have l: "Constant_loop (w, v) (bvConst64 64 (v mod 2 ^ 64))
        = foldl (\<lambda>res c. concatExpr (bvConst64 (fst c) (snd c)) res) (bvConst64 64 (v mod 2 ^ 64))
            (constant_chunks (w - 64) (v div 2 ^ 64))"
      using Constant_loop_chunks [of "(w, v)"] assms wide by simp
    have c: "concat_chunks (constant_chunks w v)
        = foldl (\<lambda>res c. concatExpr (bvConst64 (fst c) (snd c)) res) (bvConst64 64 (v mod 2 ^ 64))
            (constant_chunks (w - 64) (v div 2 ^ 64))"
      using wide by (subst constant_chunks.simps) (simp add: concat_chunks_def)
    have e0: "eval I (bvConst64 64 (v mod 2 ^ 64)) = Some (VBv 64 (v mod 2 ^ 64))"
      by (simp add: eval_bvConst64)
    have "eval I (concat_chunks (constant_chunks w v))
        = Some (VBv (w - 64 + 64) (v div 2 ^ 64 * 2 ^ 64 + v mod 2 ^ 64))"
      unfolding c using eval_foldl_chunks [OF e0 div_2_64_less [OF assms wide]] .
    then have e: "eval I (concat_chunks (constant_chunks w v)) = Some (VBv w v)"
      using wide by simp
    show ?thesis
      using wide l c e
      by (simp add: result_of_def value_of_def build_defs construct_Constant_def Extract_const_def)
  qed
qed


theorem Constant_lowering_witness:
  "(2 ^ 64 + 5 :: nat) < 2 ^ 80
   \<and> result_of (constructActual (ConstantExpr 80 (2 ^ 64 + 5)) (new_Z3Builder True))
       = Inr (concatExpr (Z3_mk_unsigned_int64 1 (BvSort 16)) (Z3_mk_unsigned_int64 5 (BvSort 64)), 80)
   \<and> value_of (\<lambda>t. VBool False) (constructActual (ConstantExpr 80 (2 ^ 64 + 5)) (new_Z3Builder True))
       = Some (VBv 80 (2 ^ 64 + 5))"
proof -
  have h: "(2 ^ 64 + 5 :: nat) < 2 ^ 80" by simp
  have c: "constant_chunks 80 (2 ^ 64 + 5) = [(64, 5), (16, 1)]"
    by (simp add: constant_chunks.simps)
  from Constant_lowering [OF h, of "new_Z3Builder True" "\<lambda>t. VBool False"] h c show ?thesis
    by (simp add: concat_chunks_def bvConst64_def getBvSort_def Z3_mk_bv_sort_def)
qed

text \<open>
  Claim C7 as stated says that a constant of at most 32 bits becomes a 32-bit numeral.
  The constant 5 of width 8 becomes a numeral of the bitvector sort of width 8.
\<close>

theorem Constant_width_8_counterexample:
  "result_of (constructActual (ConstantExpr 8 5) (new_Z3Builder True))
      = Inr (Z3_mk_unsigned_int 5 (BvSort 8), 8)
   \<and> Z3_get_sort (Z3_mk_unsigned_int 5 (BvSort 8)) = Some (BvSort 8)
   \<and> Z3_get_sort (Z3_mk_unsigned_int 5 (BvSort 8)) \<noteq> Some (BvSort 32)"
  by (simp add: result_of_def build_defs construct_Constant_def bvConst32_def getBvSort_def
      Z3_mk_bv_sort_def is_bv_sort_def)

subsection \<open>Floating-point comparisons at width 80\<close>

lemma construct_FOrdered_80:
  "construct_FOrdered f msg left right 80 =
     Inr (andExpr (notExpr (wrongHiddenBit2 left right))
            (Z3_app2 f (readExpr left (bvZero 1)) (readExpr right (bvZero 1))), 1)"
  by (simp add: construct_FOrdered_def bindE_def assertE_def is_float_width_def Let_def)

lemmas eval_defs = eval_app1_def eval_app2_def eval_app3_def eval_and_def eval_or_def eval_bv_numeral_def

lemmas term_defs = writeExpr_def readExpr_def iteExpr_def isNanExpr_def notExpr_def andExpr_def orExpr_def
  orExpr3_def eqExpr_def fpNan_def fpZero_def f80_array_def f80_sort_def wrongHiddenBit1_def
  wrongHiddenBit2_def

lemma FCmp_80_run:
  assumes "tick (construct l) s = Inr ((left, w1), s1)" and "construct r s1 = Inr ((right, 80), s2)"
  shows "constructActual (FCmpExpr k l r) s
           = (case construct_FCmp k left right 80 of Inl e \<Rightarrow> Inl e | Inr res \<Rightarrow> Inr (res, s2))"
  using assms by (simp add: construct_fold build_defs)

text \<open>
  Claim C3, amended. With operands that translate to \<open>left\<close> and \<open>right\<close> at width 80, let
  \<open>wrong\<close> be the Z3 term \<open>is_nan(left[1]) OR is_nan(right[1])\<close> and \<open>l0\<close>, \<open>r0\<close> the terms
  \<open>left[0]\<close>, \<open>right[0]\<close>. The ordered comparisons \<^verbatim>\<open>FOeq\<close>, \<^verbatim>\<open>FOgt\<close>, \<^verbatim>\<open>FOge\<close>, \<^verbatim>\<open>FOlt\<close>,
  \<^verbatim>\<open>FOle\<close> are \<open>(NOT wrong) AND cmp(l0, r0)\<close> with their native comparison \<open>cmp\<close>; the unordered
  \<^verbatim>\<open>FUeq\<close>, \<^verbatim>\<open>FUgt\<close>, \<^verbatim>\<open>FUge\<close>, \<^verbatim>\<open>FUlt\<close>, \<^verbatim>\<open>FUle\<close> are
  \<open>(NOT wrong) AND (isnan l0 OR isnan r0 OR cmp(l0, r0))\<close>; \<^verbatim>\<open>FOne\<close> is
  \<open>wrong OR NOT (isnan l0 OR isnan r0 OR eq(l0, r0))\<close> and \<^verbatim>\<open>FUne\<close> is
  \<open>wrong OR NOT eq(l0, r0)\<close>; \<^verbatim>\<open>FOrd\<close> and \<^verbatim>\<open>FUno\<close> are built from \<open>l0\<close> and \<open>r0\<close> alone.
  Under every interpretation that makes \<open>wrong\<close> true (an operand is unnormal) the ten
  comparisons of the first two groups are false and both \<^verbatim>\<open>FOne\<close> and \<^verbatim>\<open>FUne\<close> are true;
  under every interpretation that makes \<open>wrong\<close> false, an ordered comparison has the
  value of its native comparison, and \<^verbatim>\<open>FOne\<close> and \<^verbatim>\<open>FUne\<close> the negated value of the
  term under their \<open>NOT\<close>.
\<close>

theorem FCmp_80_unnormal:
  assumes "tick (construct l) s = Inr ((left, w1), s1)"
    and "construct r s1 = Inr ((right, 80), s2)"
    and "ko \<in> {FOeq, FOgt, FOge, FOlt, FOle}"
    and "ku \<in> {FUeq, FUgt, FUge, FUlt, FUle}"
    and "wrong = Z3_app2 Z3_mk_or
                   (Z3_app1 Z3_mk_fpa_is_nan (Z3_app2 Z3_mk_select left (Z3_mk_unsigned_int64 1 (BvSort 1))))
                   (Z3_app1 Z3_mk_fpa_is_nan (Z3_app2 Z3_mk_select right (Z3_mk_unsigned_int64 1 (BvSort 1))))"
    and "l0 = Z3_app2 Z3_mk_select left (Z3_mk_unsigned_int64 0 (BvSort 1))"
    and "r0 = Z3_app2 Z3_mk_select right (Z3_mk_unsigned_int64 0 (BvSort 1))"
    and "nans = Z3_app3 Z3_mk_or3 (Z3_app1 Z3_mk_fpa_is_nan l0) (Z3_app1 Z3_mk_fpa_is_nan r0)"
  shows "constructActual (FCmpExpr ko l r) s
           = Inr ((Z3_app2 Z3_mk_and (Z3_app1 Z3_mk_not wrong) (Z3_app2 (native_cmp ko) l0 r0), 1), s2)
     \<and> constructActual (FCmpExpr ku l r) s
           = Inr ((Z3_app2 Z3_mk_and (Z3_app1 Z3_mk_not wrong) (nans (Z3_app2 (native_cmp ku) l0 r0)), 1), s2)
     \<and> constructActual (FCmpExpr FOne l r) s
           = Inr ((Z3_app2 Z3_mk_or wrong (Z3_app1 Z3_mk_not (nans (Z3_app2 Z3_mk_fpa_eq l0 r0))), 1), s2)
     \<and> constructActual (FCmpExpr FUne l r) s
           = Inr ((Z3_app2 Z3_mk_or wrong (Z3_app1 Z3_mk_not (Z3_app2 Z3_mk_fpa_eq l0 r0)), 1), s2)
     \<and> constructActual (FCmpExpr FOrd l r) s
           = Inr ((Z3_app2 Z3_mk_and (Z3_app1 Z3_mk_not (Z3_app1 Z3_mk_fpa_is_nan l0))
                     (Z3_app1 Z3_mk_not (Z3_app1 Z3_mk_fpa_is_nan r0)), 1), s2)
     \<and> constructActual (FCmpExpr FUno l r) s
           = Inr ((Z3_app2 Z3_mk_or (Z3_app1 Z3_mk_fpa_is_nan l0) (Z3_app1 Z3_mk_fpa_is_nan r0), 1), s2)
     \<and> (\<forall>I. eval I wrong = Some (VBool True) \<longrightarrow>
           value_of I (constructActual (FCmpExpr ko l r) s) = Some (VBool False)
         \<and> value_of I (constructActual (FCmpExpr ku l r) s) = Some (VBool False)
         \<and> value_of I (constructActual (FCmpExpr FOne l r) s) = Some (VBool True)
         \<and> value_of I (constructActual (FCmpExpr FUne l r) s) = Some (VBool True))
     \<and> (\<forall>I b c d. eval I wrong = Some (VBool False)
           \<and> eval I (Z3_app2 (native_cmp ko) l0 r0) = Some (VBool b)
           \<and> eval I (nans (Z3_app2 Z3_mk_fpa_eq l0 r0)) = Some (VBool c)
           \<and> eval I (Z3_app2 Z3_mk_fpa_eq l0 r0) = Some (VBool d) \<longrightarrow>
           value_of I (constructActual (FCmpExpr ko l r) s) = Some (VBool b)
         \<and> value_of I (constructActual (FCmpExpr FOne l r) s) = Some (VBool (\<not> c))
         \<and> value_of I (constructActual (FCmpExpr FUne l r) s) = Some (VBool (\<not> d)))"
proof -
  note run = FCmp_80_run [OF assms(1,2)]
  note defs = construct_FCmp_def construct_FOrdered_def construct_FUnordered_def bindE_def assertE_def
    is_float_width_def Let_def native_cmp_def wrongHiddenBit2_def andExpr_def orExpr_def orExpr3_def
    notExpr_def isNanExpr_def readExpr_def bvOne_le_64 bvZero_le_64
  have a: "constructActual (FCmpExpr ko l r) s
           = Inr ((Z3_app2 Z3_mk_and (Z3_app1 Z3_mk_not wrong) (Z3_app2 (native_cmp ko) l0 r0), 1), s2)"
    unfolding run using assms(3,5-7) by (auto simp: defs)
  have b: "constructActual (FCmpExpr ku l r) s
           = Inr ((Z3_app2 Z3_mk_and (Z3_app1 Z3_mk_not wrong) (nans (Z3_app2 (native_cmp ku) l0 r0)), 1), s2)"
    unfolding run using assms(4-8) by (auto simp: defs)
  have c: "constructActual (FCmpExpr FOne l r) s
           = Inr ((Z3_app2 Z3_mk_or wrong (Z3_app1 Z3_mk_not (nans (Z3_app2 Z3_mk_fpa_eq l0 r0))), 1), s2)"
    unfolding run using assms(5-8) by (simp add: defs)
  have d: "constructActual (FCmpExpr FUne l r) s
           = Inr ((Z3_app2 Z3_mk_or wrong (Z3_app1 Z3_mk_not (Z3_app2 Z3_mk_fpa_eq l0 r0)), 1), s2)"
    unfolding run using assms(5-7) by (simp add: defs)
  have e: "constructActual (FCmpExpr FOrd l r) s
           = Inr ((Z3_app2 Z3_mk_and (Z3_app1 Z3_mk_not (Z3_app1 Z3_mk_fpa_is_nan l0))
                     (Z3_app1 Z3_mk_not (Z3_app1 Z3_mk_fpa_is_nan r0)), 1), s2)"
    unfolding run using assms(6,7) by (simp add: defs)
  have f: "constructActual (FCmpExpr FUno l r) s
           = Inr ((Z3_app2 Z3_mk_or (Z3_app1 Z3_mk_fpa_is_nan l0) (Z3_app1 Z3_mk_fpa_is_nan r0), 1), s2)"
    unfolding run using assms(6,7) by (simp add: defs)
  have g: "\<forall>I. eval I wrong = Some (VBool True) \<longrightarrow>
           value_of I (constructActual (FCmpExpr ko l r) s) = Some (VBool False)
         \<and> value_of I (constructActual (FCmpExpr ku l r) s) = Some (VBool False)
         \<and> value_of I (constructActual (FCmpExpr FOne l r) s) = Some (VBool True)
         \<and> value_of I (constructActual (FCmpExpr FUne l r) s) = Some (VBool True)"
    unfolding a b c d
    by (simp add: value_of_def eval_app2_def eval_app1_def eval_and_def eval_or_def)
  have h: "\<forall>I b c d. eval I wrong = Some (VBool False)
           \<and> eval I (Z3_app2 (native_cmp ko) l0 r0) = Some (VBool b)
           \<and> eval I (nans (Z3_app2 Z3_mk_fpa_eq l0 r0)) = Some (VBool c)
           \<and> eval I (Z3_app2 Z3_mk_fpa_eq l0 r0) = Some (VBool d) \<longrightarrow>
           value_of I (constructActual (FCmpExpr ko l r) s) = Some (VBool b)
         \<and> value_of I (constructActual (FCmpExpr FOne l r) s) = Some (VBool (\<not> c))
         \<and> value_of I (constructActual (FCmpExpr FUne l r) s) = Some (VBool (\<not> d))"
    unfolding a c d
  proof (intro allI impI, elim conjE)
    fix I b c d
    assume w: "eval I wrong = Some (VBool False)"
      and n: "eval I (Z3_app2 (native_cmp ko) l0 r0) = Some (VBool b)"
      and o: "eval I (nans (Z3_app2 Z3_mk_fpa_eq l0 r0)) = Some (VBool c)"
      and q: "eval I (Z3_app2 Z3_mk_fpa_eq l0 r0) = Some (VBool d)"
    have 1: "eval I (Z3_app2 Z3_mk_and (Z3_app1 Z3_mk_not wrong) (Z3_app2 (native_cmp ko) l0 r0))
        = Some (VBool b)"
      using w n by (simp add: eval_app2_def [of Z3_mk_and] eval_app1_def eval_and_def)
    have 2: "eval I (Z3_app2 Z3_mk_or wrong (Z3_app1 Z3_mk_not (nans (Z3_app2 Z3_mk_fpa_eq l0 r0))))
        = Some (VBool (\<not> c))"
      using w o by (simp add: eval_app2_def [of Z3_mk_or] eval_app1_def eval_or_def)
    have 3: "eval I (Z3_app2 Z3_mk_or wrong (Z3_app1 Z3_mk_not (Z3_app2 Z3_mk_fpa_eq l0 r0)))
        = Some (VBool (\<not> d))"
      using w q by (simp add: eval_app2_def [of Z3_mk_or] eval_app1_def eval_or_def)
    show "value_of I (Inr ((Z3_app2 Z3_mk_and (Z3_app1 Z3_mk_not wrong) (Z3_app2 (native_cmp ko) l0 r0), 1), s2))
            = Some (VBool b)
        \<and> value_of I (Inr ((Z3_app2 Z3_mk_or wrong
              (Z3_app1 Z3_mk_not (nans (Z3_app2 Z3_mk_fpa_eq l0 r0))), 1), s2)) = Some (VBool (\<not> c))
        \<and> value_of I (Inr ((Z3_app2 Z3_mk_or wrong
              (Z3_app1 Z3_mk_not (Z3_app2 Z3_mk_fpa_eq l0 r0)), 1), s2)) = Some (VBool (\<not> d))"
      using 1 2 3 by (simp add: value_of_def)
  qed
  show ?thesis using a b c d e f g h by blast
qed

theorem FCmp_80_unnormal_witness:
  "FOlt \<in> {FOeq, FOgt, FOge, FOlt, FOle} \<and> FUlt \<in> {FUeq, FUgt, FUge, FUlt, FUle}
   \<and> unnormal_under (\<lambda>t. case t of Z3_mk_const n srt \<Rightarrow> VArr (\<lambda>i. VFp (FpOther 0))
                           | Z3_app3 f a b c \<Rightarrow> VFp (FpOther 0) | _ \<Rightarrow> VBool True)
        (construct (FConstantExpr 80 (2 ^ 64)) (new_Z3Builder False)) = Some (VBool True)
   \<and> value_of (\<lambda>t. case t of Z3_mk_const n srt \<Rightarrow> VArr (\<lambda>i. VFp (FpOther 0))
                           | Z3_app3 f a b c \<Rightarrow> VFp (FpOther 0) | _ \<Rightarrow> VBool True)
        (constructActual (FCmpExpr FOlt (FConstantExpr 80 (2 ^ 64)) (FConstantExpr 80 0)) (new_Z3Builder False))
       = Some (VBool False)
   \<and> value_of (\<lambda>t. case t of Z3_mk_const n srt \<Rightarrow> VArr (\<lambda>i. VFp (FpOther 0))
                           | Z3_app3 f a b c \<Rightarrow> VFp (FpOther 0) | _ \<Rightarrow> VBool True)
        (constructActual (FCmpExpr FUlt (FConstantExpr 80 (2 ^ 64)) (FConstantExpr 80 0)) (new_Z3Builder False))
       = Some (VBool False)
   \<and> value_of (\<lambda>t. case t of Z3_mk_const n srt \<Rightarrow> VArr (\<lambda>i. VFp (FpOther 0))
                           | Z3_app3 f a b c \<Rightarrow> VFp (FpOther 0) | _ \<Rightarrow> VBool True)
        (constructActual (FCmpExpr FUne (FConstantExpr 80 (2 ^ 64)) (FConstantExpr 80 0)) (new_Z3Builder False))
       = Some (VBool True)
   \<and> unnormal_under (\<lambda>t. case t of Z3_mk_const n srt \<Rightarrow> VArr (\<lambda>i. VFp (FpOther 0))
                           | Z3_app3 f a b c \<Rightarrow> VFp (FpOther 0) | _ \<Rightarrow> VBool True)
        (construct (FConstantExpr 80 0) (new_Z3Builder False)) = Some (VBool False)
   \<and> value_of (\<lambda>t. case t of Z3_mk_const n srt \<Rightarrow> VArr (\<lambda>i. VFp (FpOther 0))
                           | Z3_app3 f a b c \<Rightarrow> VFp (FpOther 0) | _ \<Rightarrow> VBool True)
        (constructActual (FCmpExpr FOlt (FConstantExpr 80 0) (FConstantExpr 80 0)) (new_Z3Builder False))
       = Some (VBool True)
   \<and> value_of (\<lambda>t. case t of Z3_mk_const n srt \<Rightarrow> VArr (\<lambda>i. VFp (FpOther 0))
                           | Z3_app3 f a b c \<Rightarrow> VFp (FpOther 0) | _ \<Rightarrow> VBool True)
        (constructActual (FCmpExpr FUne (FConstantExpr 80 0) (FConstantExpr 80 0)) (new_Z3Builder False))
       = Some (VBool False)"
proof -
  define s where "s = new_Z3Builder False"
  define I where "I = (\<lambda>t. case t of Z3_mk_const n srt \<Rightarrow> VArr (\<lambda>i. VFp (FpOther 0))
                           | Z3_app3 f a b c \<Rightarrow> VFp (FpOther 0) | _ \<Rightarrow> VBool True)"
  define zero where "zero = Z3_mk_unsigned_int64 0 (BvSort 1)"
  define one where "one = Z3_mk_unsigned_int64 1 (BvSort 1)"
  define arr where "arr = Z3_mk_const ''[F80, unnormal]'' (ArraySort (BvSort 1) (FpaSort 15 64))"
  define A where "A = Z3_app3 Z3_mk_store (Z3_app3 Z3_mk_store arr zero
             (Z3_app3 Z3_mk_fpa_fp (Z3_mk_unsigned_int 0 (BvSort 1))
                (Z3_mk_unsigned_int 1 (BvSort 15)) (Z3_mk_unsigned_int 0 (BvSort 63))))
             one (Z3_mk_fpa_nan (FpaSort 15 64))"
  define B where "B = Z3_app3 Z3_mk_store (Z3_app3 Z3_mk_store arr zero
             (Z3_app3 Z3_mk_fpa_fp (Z3_mk_unsigned_int 0 (BvSort 1))
                (Z3_mk_unsigned_int 0 (BvSort 15)) (Z3_mk_unsigned_int 0 (BvSort 63))))
             one (Z3_mk_fpa_zero (FpaSort 15 64) False)"
  note cdefs = construct_def construct_with_def new_Z3Builder_def build_defs
        construct_FConstant_def Let_def Z3_mk_bv_sort_def term_defs bvOne_le_64 bvZero_le_64
        getArraySort_def getBvSort_def Z3_mk_array_sort_def Z3_mk_fpa_sort_def
  have cA: "construct (FConstantExpr 80 (2 ^ 64)) sa = Inr ((A, 80), sa\<lparr>queryConstructs := queryConstructs sa + 1\<rparr>)"
    if "\<not> UseConstructHashZ3 sa" for sa
    using that by (simp add: A_def arr_def zero_def one_def cdefs)
  have cB: "construct (FConstantExpr 80 0) sa = Inr ((B, 80), sa\<lparr>queryConstructs := queryConstructs sa + 1\<rparr>)"
    if "\<not> UseConstructHashZ3 sa" for sa
    using that by (simp add: B_def arr_def zero_def one_def cdefs)
  have nh: "\<not> UseConstructHashZ3 s" "\<not> UseConstructHashZ3 (s\<lparr>queryConstructs := n\<rparr>)" for n
    by (simp_all add: s_def new_Z3Builder_def)
  have hA: "tick (construct (FConstantExpr 80 (2 ^ 64))) s = Inr ((A, 80), s\<lparr>queryConstructs := 2\<rparr>)"
    using cA [of "s\<lparr>queryConstructs := queryConstructs s + 1\<rparr>"]
    by (simp add: tick_def s_def new_Z3Builder_def)
  have hB: "tick (construct (FConstantExpr 80 0)) s = Inr ((B, 80), s\<lparr>queryConstructs := 2\<rparr>)"
    using cB [of "s\<lparr>queryConstructs := queryConstructs s + 1\<rparr>"]
    by (simp add: tick_def s_def new_Z3Builder_def)
  have hB2: "construct (FConstantExpr 80 0) (s\<lparr>queryConstructs := 2\<rparr>) = Inr ((B, 80), s\<lparr>queryConstructs := 3\<rparr>)"
    using cB [of "s\<lparr>queryConstructs := 2\<rparr>"] by (simp add: s_def new_Z3Builder_def)
  have m1: "FOlt \<in> {FOeq, FOgt, FOge, FOlt, FOle}" and m2: "FUlt \<in> {FUeq, FUgt, FUge, FUlt, FUle}"
    by simp_all
  have eA: "eval I A = Some (VArr (((\<lambda>i. VFp (FpOther 0))(0 := VFp (FpOther 0)))(1 := VFp FpNaN)))"
    by (simp add: A_def arr_def zero_def one_def I_def eval_defs)
  have eB: "eval I B = Some (VArr (((\<lambda>i. VFp (FpOther 0))(0 := VFp (FpOther 0)))(1 := VFp (FpZero False))))"
    by (simp add: B_def arr_def zero_def one_def I_def eval_defs)
  have wAB: "eval I (Z3_app2 Z3_mk_or (Z3_app1 Z3_mk_fpa_is_nan (Z3_app2 Z3_mk_select A one))
                 (Z3_app1 Z3_mk_fpa_is_nan (Z3_app2 Z3_mk_select B one))) = Some (VBool True)"
    by (simp add: eA eB one_def eval_defs)
  have wBB: "eval I (Z3_app2 Z3_mk_or (Z3_app1 Z3_mk_fpa_is_nan (Z3_app2 Z3_mk_select B one))
                 (Z3_app1 Z3_mk_fpa_is_nan (Z3_app2 Z3_mk_select B one))) = Some (VBool False)"
    by (simp add: eB one_def eval_defs)
  have uA: "unnormal_under I (construct (FConstantExpr 80 (2 ^ 64)) s) = Some (VBool True)"
    using cA [OF nh(1)]
    by (simp add: unnormal_under_def wrongHiddenBit1_def isNanExpr_def readExpr_def bvOne_le_64
        eA eval_defs)
  have uB: "unnormal_under I (construct (FConstantExpr 80 0) s) = Some (VBool False)"
    using cB [OF nh(1)]
    by (simp add: unnormal_under_def wrongHiddenBit1_def isNanExpr_def readExpr_def bvOne_le_64
        eB eval_defs)
  note tAB = FCmp_80_unnormal [OF hA hB2 m1 m2 refl refl refl refl, unfolded one_def [symmetric] zero_def [symmetric]]
  note tBB = FCmp_80_unnormal [OF hB hB2 m1 m2 refl refl refl refl, unfolded one_def [symmetric] zero_def [symmetric]]
  from tAB wAB
  have v1: "value_of I (constructActual (FCmpExpr FOlt (FConstantExpr 80 (2 ^ 64)) (FConstantExpr 80 0)) s)
      = Some (VBool False)"
    and v2: "value_of I (constructActual (FCmpExpr FUlt (FConstantExpr 80 (2 ^ 64)) (FConstantExpr 80 0)) s)
      = Some (VBool False)"
    and v3: "value_of I (constructActual (FCmpExpr FUne (FConstantExpr 80 (2 ^ 64)) (FConstantExpr 80 0)) s)
      = Some (VBool True)"
    by blast+
  have n1: "eval I (Z3_app2 (native_cmp FOlt) (Z3_app2 Z3_mk_select B zero) (Z3_app2 Z3_mk_select B zero))
      = Some (VBool True)"
    by (simp add: native_cmp_def eval_app2_def I_def)
  have n2: "eval I (Z3_app3 Z3_mk_or3 (Z3_app1 Z3_mk_fpa_is_nan (Z3_app2 Z3_mk_select B zero))
               (Z3_app1 Z3_mk_fpa_is_nan (Z3_app2 Z3_mk_select B zero))
               (Z3_app2 Z3_mk_fpa_eq (Z3_app2 Z3_mk_select B zero) (Z3_app2 Z3_mk_select B zero)))
      = Some (VBool True)"
    by (simp add: eB zero_def eval_defs I_def)
  have n3: "eval I (Z3_app2 Z3_mk_fpa_eq (Z3_app2 Z3_mk_select B zero) (Z3_app2 Z3_mk_select B zero))
      = Some (VBool True)"
    by (simp add: eval_app2_def I_def)
  from tBB wBB n1 n2 n3
  have v4: "value_of I (constructActual (FCmpExpr FOlt (FConstantExpr 80 0) (FConstantExpr 80 0)) s)
      = Some (VBool True)"
    and v5: "value_of I (constructActual (FCmpExpr FUne (FConstantExpr 80 0) (FConstantExpr 80 0)) s)
      = Some (VBool (\<not> True))"
    by blast+
  from v5 have v5': "value_of I (constructActual (FCmpExpr FUne (FConstantExpr 80 0) (FConstantExpr 80 0)) s)
      = Some (VBool False)" by simp
  show ?thesis
    using m1 m2 uA v1 v2 v3 uB v4 v5' unfolding s_def I_def by blast
qed

text \<open>
  Claim C3 as stated counts \<^verbatim>\<open>FOne\<close> among the comparisons that are false on unnormal
  operands. The 80-bit constant with exponent 1 and integer bit 0 is unnormal, and
  \<^verbatim>\<open>FOne\<close> of it and zero is true.
\<close>

theorem FOne_unnormal_counterexample:
  "unnormal_under (\<lambda>t. VArr (\<lambda>i. VFp (FpOther 0)))
      (construct (FConstantExpr 80 (2 ^ 64)) (new_Z3Builder False)) = Some (VBool True)
   \<and> value_of (\<lambda>t. VArr (\<lambda>i. VFp (FpOther 0)))
      (constructActual (FCmpExpr FOne (FConstantExpr 80 (2 ^ 64)) (FConstantExpr 80 0)) (new_Z3Builder False))
     = Some (VBool True)"
  by (simp add: unnormal_under_def value_of_def construct_def construct_with_def new_Z3Builder_def
      build_defs isa_ConstantExpr_def dyn_cast_ConstantExpr_def construct_FConstant_def
      construct_FCmp_def is_float_width_def Let_def term_defs eval_defs bvOne_le_64 bvZero_le_64
      Z3_mk_bv_sort_def)

end
